theory Spec2Isabelle
  imports Complex_Main "HOL-Library.Sublist"
begin

section \<open>The lookup route: rate limiter, lookup handler and photo proxy\<close>

text \<open>
  A shallow embedding of \<^verbatim>\<open>src/app/api/lookup/route.ts\<close>. Strings are lists of
  code units (a \<open>char\<close> stands for a code unit below 256), timestamps are integers
  (milliseconds, as \<^verbatim>\<open>Date.now()\<close> returns them), the module-level \<^verbatim>\<open>buckets\<close> map is
  passed in and returned, and the clock and the outbound \<^verbatim>\<open>fetch\<close> are inputs of each
  handler. A handler either responds or throws; both are values of the model.
\<close>

subsection \<open>Values of the runtime\<close>

text \<open>
  A parsed JSON value, extended with \<^verbatim>\<open>undefined\<close>, which a property read of a missing
  key produces. An object is the association list of its own properties (the first binding
  of a key is the one the object holds).
\<close>

datatype jsval =
    Undefined
  | Null
  | Bool bool
  | Num real
  | Str string
  | Arr "jsval list"
  | Obj "(string \<times> jsval) list"

text \<open>
  What a \<^verbatim>\<open>throw\<close> carries: the TypeError the runtime raises on a property read of
  \<^verbatim>\<open>null\<close> or \<^verbatim>\<open>undefined\<close> (with the property's name), or an Error with its message,
  raised by \<^verbatim>\<open>fetch\<close>, by a body reader or by \<^verbatim>\<open>new Error(...)\<close> in the code.
\<close>

datatype thrown = TypeError string | Failure "string option"

text \<open>\<^verbatim>\<open>e?.message\<close> of a caught value.\<close>

fun message_of :: "thrown \<Rightarrow> string option" where
  "message_of (TypeError p) = Some (''Cannot read properties of null (reading '' @ p @ '')'')"
| "message_of (Failure m) = m"

text \<open>
  \<^verbatim>\<open>v.k\<close> for the property names the route reads (none of them is a built-in property of
  strings, numbers or arrays): a TypeError on \<^verbatim>\<open>null\<close> and \<^verbatim>\<open>undefined\<close>, the bound value
  on an object that has the key, \<^verbatim>\<open>undefined\<close> everywhere else.
\<close>

fun get_prop :: "jsval \<Rightarrow> string \<Rightarrow> thrown + jsval" where
  "get_prop Undefined k = Inl (TypeError k)"
| "get_prop Null k = Inl (TypeError k)"
| "get_prop (Obj kvs) k = Inr (case map_of kvs k of None \<Rightarrow> Undefined | Some v \<Rightarrow> v)"
| "get_prop v k = Inr Undefined"

text \<open>\<^verbatim>\<open>v?.k\<close>: \<^verbatim>\<open>undefined\<close> when \<open>v\<close> is nullish, the property read otherwise.\<close>

fun opt_prop :: "jsval \<Rightarrow> string \<Rightarrow> jsval" where
  "opt_prop Undefined k = Undefined"
| "opt_prop Null k = Undefined"
| "opt_prop (Obj kvs) k = (case map_of kvs k of None \<Rightarrow> Undefined | Some v \<Rightarrow> v)"
| "opt_prop v k = Undefined"

text \<open>\<^verbatim>\<open>v ?? d\<close>.\<close>

fun nullish_or :: "jsval \<Rightarrow> jsval \<Rightarrow> jsval" where
  "nullish_or Undefined d = d"
| "nullish_or Null d = d"
| "nullish_or v d = v"

text \<open>Truthiness, as \<^verbatim>\<open>!v\<close> and \<^verbatim>\<open>if (v)\<close> test it.\<close>

fun truthy :: "jsval \<Rightarrow> bool" where
  "truthy Undefined = False"
| "truthy Null = False"
| "truthy (Bool b) = b"
| "truthy (Num x) = (x \<noteq> 0)"
| "truthy (Str s) = (s \<noteq> [])"
| "truthy (Arr xs) = True"
| "truthy (Obj kvs) = True"

text \<open>\<^verbatim>\<open>String.prototype.trim\<close> on code units below 256, and \<^verbatim>\<open>s.split(',')[0]\<close>.\<close>

definition is_ws :: "char \<Rightarrow> bool" where
  "is_ws c = (c \<in> {CHR 0x09, CHR 0x0A, CHR 0x0B, CHR 0x0C, CHR 0x0D, CHR 0x20, CHR 0xA0})"

definition trim :: "string \<Rightarrow> string" where
  "trim s = rev (dropWhile is_ws (rev (dropWhile is_ws s)))"

definition split_comma_first :: "string \<Rightarrow> string" where
  "split_comma_first s = takeWhile (\<lambda>c. c \<noteq> CHR '','') s"

text \<open>\<^verbatim>\<open>s.includes(sub)\<close>.\<close>

fun includes_str :: "string \<Rightarrow> string \<Rightarrow> bool" where
  "includes_str [] sub = (sub = [])"
| "includes_str (c # s) sub = (prefix sub (c # s) \<or> includes_str s sub)"

text \<open>The decimal digits of a number, as a template literal prints a status code.\<close>

fun string_of_nat :: "nat \<Rightarrow> string" where
  "string_of_nat n =
     (if n < 10 then [''0123456789'' ! n]
      else string_of_nat (n div 10) @ [''0123456789'' ! (n mod 10)])"

declare string_of_nat.simps [simp del]

subsection \<open>The rate limiter\<close>

definition WINDOW_MS :: int where
  "WINDOW_MS = 60000"

definition MAX_REQUESTS :: nat where
  "MAX_REQUESTS = 30"

type_synonym buckets = "string \<rightharpoonup> int list"

text \<open>\<^verbatim>\<open>buckets.get(ip) ?? []\<close>.\<close>

definition bucket_of :: "buckets \<Rightarrow> string \<Rightarrow> int list" where
  "bucket_of bs ip = (case bs ip of Some a \<Rightarrow> a | None \<Rightarrow> [])"

text \<open>
  The part of a request the route reads: the \<^verbatim>\<open>x-forwarded-for\<close> header, the transport's
  \<^verbatim>\<open>ip\<close>, the result of \<^verbatim>\<open>req.json()\<close> (\<open>None\<close> when it rejects) and the query
  parameters of the URL.
\<close>

record request =
  xff :: "string option"
  ip :: "string option"
  json_body :: "jsval option"
  searchParams :: "(string \<times> string) list"

definition getIp :: "request \<Rightarrow> string" where
  "getIp req =
     (case xff req of
        Some x \<Rightarrow>
          if x \<noteq> [] then trim (split_comma_first x)
          else (case ip req of Some a \<Rightarrow> a | None \<Rightarrow> ''unknown'')
      | None \<Rightarrow> (case ip req of Some a \<Rightarrow> a | None \<Rightarrow> ''unknown''))"

text \<open>
  \<^verbatim>\<open>rateLimit\<close>, with \<open>now\<close> the value of \<^verbatim>\<open>Date.now()\<close>: the rejection message or
  \<open>None\<close> (the source's \<^verbatim>\<open>null\<close>), and the updated map.
\<close>

definition rateLimit :: "buckets \<Rightarrow> request \<Rightarrow> int \<Rightarrow> string option \<times> buckets" where
  "rateLimit bs req now =
     (let ip = getIp req;
          arr = bucket_of bs ip;
          recent = filter (\<lambda>t. now - t < WINDOW_MS) arr @ [now];
          bs' = bs(ip \<mapsto> recent)
      in if length recent > MAX_REQUESTS
         then (Some ''Rate limit exceeded. Please try again shortly.'', bs')
         else (None, bs'))"

text \<open>A run of calls of one client: the map after calls at the times \<open>ts\<close>, in order.\<close>

fun rateLimit_calls :: "buckets \<Rightarrow> request \<Rightarrow> int list \<Rightarrow> buckets" where
  "rateLimit_calls bs req [] = bs"
| "rateLimit_calls bs req (t # ts) = rateLimit_calls (snd (rateLimit bs req t)) req ts"

subsection \<open>The outside world\<close>

text \<open>
  What \<^verbatim>\<open>fetch\<close> resolves to, as far as the route looks at it: the status, the
  \<^verbatim>\<open>content-type\<close> and \<^verbatim>\<open>location\<close> headers (\<open>None\<close> when \<^verbatim>\<open>headers.get\<close> gives
  \<^verbatim>\<open>null\<close>), and what each body reader resolves to or rejects with (\<^verbatim>\<open>text()\<close> only
  matters through \<^verbatim>\<open>.catch(() => '')\<close>, so \<open>None\<close> stands for its rejection).
\<close>

record upstream =
  up_status :: nat
  up_content_type :: "string option"
  up_location :: "string option"
  up_text :: "string option"
  up_json :: "thrown + jsval"
  up_arrayBuffer :: "thrown + string"

text \<open>\<^verbatim>\<open>resp.ok\<close>: the status is in the range 200 to 299.\<close>

definition ok :: "upstream \<Rightarrow> bool" where
  "ok resp = (200 \<le> up_status resp \<and> up_status resp \<le> 299)"

definition PLACE_FIELD_MASK :: "string list" where
  "PLACE_FIELD_MASK =
    [''id'', ''displayName'', ''formattedAddress'', ''addressComponents'', ''location'',
     ''viewport'', ''types'', ''primaryType'', ''primaryTypeDisplayName'', ''businessStatus'',
     ''priceLevel'', ''priceRange'', ''rating'', ''userRatingCount'', ''nationalPhoneNumber'',
     ''internationalPhoneNumber'', ''websiteUri'', ''googleMapsUri'', ''regularOpeningHours'',
     ''utcOffsetMinutes'', ''takeout'', ''delivery'', ''dineIn'', ''curbsidePickup'',
     ''reservable'', ''servesBreakfast'', ''servesLunch'', ''servesDinner'', ''servesBrunch'',
     ''servesBeer'', ''servesWine'', ''servesCocktails'', ''servesCoffee'', ''servesDessert'',
     ''servesVegetarianFood'', ''outdoorSeating'', ''liveMusic'', ''menuForChildren'',
     ''goodForChildren'', ''goodForGroups'', ''goodForWatchingSports'', ''allowsDogs'',
     ''restroom'', ''accessibilityOptions'', ''paymentOptions'', ''parkingOptions'',
     ''editorialSummary'']"

text \<open>
  The four outbound calls of the route, each with the data the code puts into the URL and
  the headers: the geocoding call (address, key), the place-details call (place id, key,
  field mask), the photo-media call (photo name, \<^verbatim>\<open>maxWidthPx\<close>, \<^verbatim>\<open>maxHeightPx\<close> when it
  is set, key; \<^verbatim>\<open>skipHttpRedirect=true\<close> and \<^verbatim>\<open>redirect: 'manual'\<close> are constant) and the
  plain \<^verbatim>\<open>fetch(url)\<close> of a media URL.
\<close>

datatype outbound =
    GeocodeCall string string
  | PlaceDetailsCall jsval string "string list"
  | PhotoMediaCall string string "string option" string
  | UrlCall jsval

text \<open>
  The inputs of one handler run that are not in the request: the three readings of
  \<^verbatim>\<open>Date.now()\<close> (in \<^verbatim>\<open>rateLimit\<close>, at \<^verbatim>\<open>started\<close>, at \<^verbatim>\<open>elapsed\<close>) and what each outbound
  call resolves to or rejects with.
\<close>

record world =
  t_rate :: int
  t_start :: int
  t_end :: int
  fetch :: "outbound \<Rightarrow> thrown + upstream"

subsection \<open>Responses\<close>

record candidate =
  formatted_address :: jsval
  place_id :: jsval
  lat :: jsval
  lng :: jsval
  address_components :: jsval

record geocode_part =
  query :: string
  candidates :: "candidate list"
  selectedIndex :: int

text \<open>The body of a lookup response; \<^verbatim>\<open>latencyMs\<close> is \<open>None\<close> where the object has no such key.\<close>

record lookup_result =
  geocode :: geocode_part
  place :: jsval
  warnings :: "string list"
  latencyMs :: "int option"

text \<open>
  A response body: \<^verbatim>\<open>{error: message}\<close>, \<^verbatim>\<open>{error: parsed.error.flatten()}\<close> (kept as the
  names of the fields that failed), a lookup result, a plain text, or bytes.
\<close>

datatype body =
    ErrorJson string
  | ValidationJson "string list"
  | LookupJson lookup_result
  | Text string
  | Bytes string

text \<open>A response, with the headers the code sets itself.\<close>

record response =
  status :: nat
  body :: body
  headers :: "(string \<times> string) list"

datatype outcome = Responded response | Threw thrown

definition json_error :: "nat \<Rightarrow> string \<Rightarrow> response" where
  "json_error st msg = \<lparr>status = st, body = ErrorJson msg, headers = []\<rparr>"

definition text_response :: "nat \<Rightarrow> string \<Rightarrow> response" where
  "text_response st msg = \<lparr>status = st, body = Text msg, headers = []\<rparr>"

subsection \<open>The lookup handler\<close>

text \<open>
  \<^verbatim>\<open>BodySchema.safeParse\<close>: the body is an object, \<^verbatim>\<open>address\<close> is a string that is not
  empty once trimmed (the trimmed string is the output), \<^verbatim>\<open>selectedIndex\<close> is absent or a
  number that is an integer and at least 0. On failure, the names of the fields that failed
  (none for a body that is no object).
\<close>

definition BodySchema_safeParse :: "jsval \<Rightarrow> string list + (string \<times> int option)" where
  "BodySchema_safeParse b =
     (case b of
        Obj kvs \<Rightarrow>
          (let address_errs =
                 (case opt_prop b ''address'' of
                    Str s \<Rightarrow> if trim s \<noteq> [] then [] else [''address'']
                  | _ \<Rightarrow> [''address'']);
               index_errs =
                 (case opt_prop b ''selectedIndex'' of
                    Undefined \<Rightarrow> []
                  | Num x \<Rightarrow> if of_int \<lfloor>x\<rfloor> = x \<and> 0 \<le> x then [] else [''selectedIndex'']
                  | _ \<Rightarrow> [''selectedIndex''])
           in if address_errs @ index_errs \<noteq> [] then Inl (address_errs @ index_errs)
              else Inr (case opt_prop b ''address'' of Str s \<Rightarrow> trim s | _ \<Rightarrow> [],
                        case opt_prop b ''selectedIndex'' of Num x \<Rightarrow> Some \<lfloor>x\<rfloor> | _ \<Rightarrow> None))
      | _ \<Rightarrow> Inl [])"

text \<open>
  \<^verbatim>\<open>fetchPlaceDetailsNew\<close>: whatever \<^verbatim>\<open>fetch\<close> rejects with, an Error built from the status
  and the body text on a response that is not ok, the result of \<^verbatim>\<open>resp.json()\<close> otherwise.
\<close>

definition fetchPlaceDetailsNew ::
  "(outbound \<Rightarrow> thrown + upstream) \<Rightarrow> string \<Rightarrow> jsval \<Rightarrow> thrown + jsval" where
  "fetchPlaceDetailsNew f key placeId =
     (case f (PlaceDetailsCall placeId key PLACE_FIELD_MASK) of
        Inl e \<Rightarrow> Inl e
      | Inr resp \<Rightarrow>
          if \<not> ok resp then
            (let text = (case up_text resp of Some t \<Rightarrow> t | None \<Rightarrow> [])
             in Inl (Failure (Some (''Places v1 details failed with status ''
                  @ string_of_nat (up_status resp) @ (if text \<noteq> [] then '': '' @ text else [])))))
          else up_json resp)"

text \<open>
  The arrow function of \<^verbatim>\<open>geoData.results.map\<close>: the five property reads in the order of
  the object literal. Only the reads of \<open>r\<close> itself can throw.
\<close>

definition toCandidate :: "jsval \<Rightarrow> thrown + candidate" where
  "toCandidate r =
     (case get_prop r ''formatted_address'' of Inl e \<Rightarrow> Inl e | Inr fa \<Rightarrow>
     (case get_prop r ''place_id'' of Inl e \<Rightarrow> Inl e | Inr pid \<Rightarrow>
     (case get_prop r ''geometry'' of Inl e \<Rightarrow> Inl e | Inr g \<Rightarrow>
     (case get_prop r ''address_components'' of Inl e \<Rightarrow> Inl e | Inr ac \<Rightarrow>
        Inr \<lparr>formatted_address = fa,
             place_id = nullish_or pid Null,
             lat = nullish_or (opt_prop (opt_prop g ''location'') ''lat'') Null,
             lng = nullish_or (opt_prop (opt_prop g ''location'') ''lng'') Null,
             address_components = nullish_or ac Null\<rparr>))))"

text \<open>\<^verbatim>\<open>results.map(...)\<close>: in order, stopping at the first element that throws.\<close>

fun map_candidates :: "jsval list \<Rightarrow> thrown + candidate list" where
  "map_candidates [] = Inr []"
| "map_candidates (r # rs) =
     (case toCandidate r of
        Inl e \<Rightarrow> Inl e
      | Inr c \<Rightarrow> (case map_candidates rs of Inl e \<Rightarrow> Inl e | Inr cs \<Rightarrow> Inr (c # cs)))"

definition MULTIPLE_MATCHES :: string where
  "MULTIPLE_MATCHES = ''Multiple matches found; showing best match.''"

definition NO_MATCH :: string where
  "NO_MATCH = ''No match found.''"

text \<open>
  Lines 154 to 186 of \<^verbatim>\<open>POST\<close>, reached with a non-empty \<^verbatim>\<open>geoData.results\<close>: the candidate
  mapping, the multiple-matches warning, the index, the place details inside
  \<^verbatim>\<open>try\<close>/\<^verbatim>\<open>catch\<close>, the elapsed time and the payload. The second component is the list of
  outbound calls made here.
\<close>

definition POST_select ::
  "world \<Rightarrow> string \<Rightarrow> string \<Rightarrow> int option \<Rightarrow> jsval list \<Rightarrow> outcome \<times> outbound list" where
  "POST_select w key address sel results =
     (case map_candidates results of
        Inl e \<Rightarrow> (Threw e, [])
      | Inr cands \<Rightarrow>
          (let warnings0 = (if length cands > 1 then [MULTIPLE_MATCHES] else []);
               idx = (case sel of
                        Some i \<Rightarrow> if i \<ge> 0 \<and> i < int (length cands) then i else 0
                      | None \<Rightarrow> 0);
               reply = (\<lambda>p ws. Responded
                          \<lparr>status = 200,
                           body = LookupJson
                             \<lparr>geocode = \<lparr>query = address, candidates = cands, selectedIndex = idx\<rparr>,
                              place = p, warnings = ws, latencyMs = Some (t_end w - t_start w)\<rparr>,
                           headers = []\<rparr>)
           in if \<not> nat idx < length cands then (Threw (TypeError ''place_id''), [])
              else
                (let chosen = cands ! nat idx
                 in if \<not> truthy (place_id chosen)
                    then (reply Null (warnings0 @
                            [''No place_id from geocoding; place details not available.'']), [])
                    else
                      (case fetchPlaceDetailsNew (fetch w) key (place_id chosen) of
                         Inr p \<Rightarrow>
                           (reply p (warnings0 @
                              [''Places details returned from Places API (New); attribute availability varies by place.'']),
                            [PlaceDetailsCall (place_id chosen) key PLACE_FIELD_MASK])
                       | Inl e \<Rightarrow>
                           (reply Null (warnings0 @
                              [case message_of e of Some m \<Rightarrow> m
                               | None \<Rightarrow> ''Place details fetch failed'']),
                            [PlaceDetailsCall (place_id chosen) key PLACE_FIELD_MASK])))))"

text \<open>
  \<^verbatim>\<open>POST\<close>: the outcome, the outbound calls made, in order, and the updated rate-limiter
  map. \<open>GOOGLE_KEY\<close> is the value of the environment variable, \<open>None\<close> when it is unset.
\<close>

definition POST ::
  "buckets \<Rightarrow> string option \<Rightarrow> world \<Rightarrow> request \<Rightarrow> outcome \<times> outbound list \<times> buckets" where
  "POST bs GOOGLE_KEY w req =
     (case rateLimit bs req (t_rate w) of
        (Some rl, bs') \<Rightarrow> (Responded (json_error 429 rl), [], bs')
      | (None, bs') \<Rightarrow>
     (case (if GOOGLE_KEY = Some [] then None else GOOGLE_KEY) of
        None \<Rightarrow> (Responded (json_error 500
                    ''Server is not configured with GOOGLE_MAPS_API_KEY''), [], bs')
      | Some key \<Rightarrow>
     (case json_body req of
        None \<Rightarrow> (Responded (json_error 400 ''Invalid JSON body''), [], bs')
      | Some b \<Rightarrow>
     (case BodySchema_safeParse b of
        Inl errs \<Rightarrow> (Responded \<lparr>status = 400, body = ValidationJson errs, headers = []\<rparr>, [], bs')
      | Inr (address, sel) \<Rightarrow>
     (case fetch w (GeocodeCall address key) of
        Inl e \<Rightarrow> (Threw e, [GeocodeCall address key], bs')
      | Inr geoRes \<Rightarrow>
          if \<not> ok geoRes
          then (Responded (json_error 502
                  (''Geocoding failed with status '' @ string_of_nat (up_status geoRes))),
                [GeocodeCall address key], bs')
          else
     (case up_json geoRes of
        Inl e \<Rightarrow> (Threw e, [GeocodeCall address key], bs')
      | Inr geoData \<Rightarrow>
     (case get_prop geoData ''results'' of
        Inl e \<Rightarrow> (Threw e, [GeocodeCall address key], bs')
      | Inr (Arr (r # rs)) \<Rightarrow>
          (case POST_select w key address sel (r # rs) of
             (out, calls) \<Rightarrow> (out, GeocodeCall address key # calls, bs'))
      | Inr _ \<Rightarrow>
          (Responded
             \<lparr>status = 200,
              body = LookupJson
                \<lparr>geocode = \<lparr>query = address, candidates = [], selectedIndex = 0\<rparr>,
                 place = Null, warnings = [NO_MATCH], latencyMs = None\<rparr>,
              headers = []\<rparr>,
           [GeocodeCall address key], bs'))))))))"

subsection \<open>The photo proxy\<close>

text \<open>\<^verbatim>\<open>searchParams.get(k)\<close>: the first value of the key, \<open>None\<close> for \<^verbatim>\<open>null\<close>.\<close>

definition param :: "request \<Rightarrow> string \<Rightarrow> string option" where
  "param req k = map_of (searchParams req) k"

text \<open>\<^verbatim>\<open>a ?? b\<close> on results of \<^verbatim>\<open>searchParams.get\<close>.\<close>

fun orElse :: "string option \<Rightarrow> string option \<Rightarrow> string option" where
  "orElse (Some a) b = Some a"
| "orElse None b = b"

definition CACHE_CONTROL :: string where
  "CACHE_CONTROL = ''public, max-age=86400''"

text \<open>
  The last lines of each success path: the content type of the response read, or
  \<^verbatim>\<open>image/jpeg\<close>, its bytes, and the two headers.
\<close>

definition photo_reply :: "upstream \<Rightarrow> outcome" where
  "photo_reply r =
     (let contentType = (case up_content_type r of Some c \<Rightarrow> c | None \<Rightarrow> ''image/jpeg'')
      in case up_arrayBuffer r of
           Inl e \<Rightarrow> Threw e
         | Inr bytes \<Rightarrow>
             Responded \<lparr>status = 200, body = Bytes bytes,
               headers = [(''content-type'', contentType), (''cache-control'', CACHE_CONTROL)]\<rparr>)"

text \<open>
  Lines 215 to 267 of \<^verbatim>\<open>GET\<close>, after the first \<^verbatim>\<open>fetch\<close> has resolved to \<open>resp\<close>: the three
  branches in the order of the source, with the outbound calls made here.
\<close>

definition GET_relay :: "world \<Rightarrow> upstream \<Rightarrow> outcome \<times> outbound list" where
  "GET_relay w resp =
     (if ok resp \<and> includes_str (case up_content_type resp of Some c \<Rightarrow> c | None \<Rightarrow> [])
                      ''application/json''
      then
        (let data = (case up_json resp of Inl e \<Rightarrow> Null | Inr d \<Rightarrow> d);
             mediaUrl = opt_prop data ''photoUri''
         in if \<not> truthy mediaUrl
            then (Responded (text_response 502 ''Failed to resolve photo media URL''), [])
            else
              (case fetch w (UrlCall mediaUrl) of
                 Inl e \<Rightarrow> (Threw e, [UrlCall mediaUrl])
               | Inr mediaResp \<Rightarrow>
                   if \<not> ok mediaResp
                   then (Responded (text_response 502 ''Failed to fetch photo''), [UrlCall mediaUrl])
                   else (photo_reply mediaResp, [UrlCall mediaUrl])))
      else if up_status resp \<ge> 300 \<and> up_status resp < 400
      then
        (case (if up_location resp = Some [] then None else up_location resp) of
           None \<Rightarrow> (Responded (text_response 502 ''Failed to fetch photo''), [])
         | Some loc \<Rightarrow>
             (case fetch w (UrlCall (Str loc)) of
                Inl e \<Rightarrow> (Threw e, [UrlCall (Str loc)])
              | Inr mediaResp \<Rightarrow>
                  if \<not> ok mediaResp
                  then (Responded (text_response 502 ''Failed to fetch photo''), [UrlCall (Str loc)])
                  else (photo_reply mediaResp, [UrlCall (Str loc)])))
      else if \<not> ok resp
      then (Responded (text_response 502 ''Failed to fetch photo''), [])
      else (photo_reply resp, []))"

text \<open>\<^verbatim>\<open>GET\<close>: the outcome, the outbound calls made, in order, and the updated map.\<close>

definition GET ::
  "buckets \<Rightarrow> string option \<Rightarrow> world \<Rightarrow> request \<Rightarrow> outcome \<times> outbound list \<times> buckets" where
  "GET bs GOOGLE_KEY w req =
     (case rateLimit bs req (t_rate w) of
        (Some rl, bs') \<Rightarrow> (Responded (text_response 429 rl), [], bs')
      | (None, bs') \<Rightarrow>
     (case (if GOOGLE_KEY = Some [] then None else GOOGLE_KEY) of
        None \<Rightarrow> (Responded (text_response 500 ''Server not configured''), [], bs')
      | Some key \<Rightarrow>
          (let photoName = orElse (param req ''photoName'')
                             (orElse (param req ''name'') (param req ''photoRef''));
               maxWidthPx = (case orElse (param req ''maxWidthPx'') (param req ''maxwidth'') of
                               Some x \<Rightarrow> x | None \<Rightarrow> ''400'');
               maxHeightPx = orElse (param req ''maxHeightPx'') (param req ''maxheight'')
           in case (if photoName = Some [] then None else photoName) of
                None \<Rightarrow> (Responded (text_response 400 ''photoName required''), [], bs')
              | Some name \<Rightarrow>
                  if \<not> prefix ''places/'' name
                  then (Responded (text_response 400
                          (''photoName must be a full Places photo resource name (starts with ''
                           @ [CHR 0x22] @ ''places/'' @ [CHR 0x22] @ '')'')),
                        [], bs')
                  else
                    (let call = PhotoMediaCall name maxWidthPx
                                  (if maxHeightPx = Some [] then None else maxHeightPx) key
                     in case fetch w call of
                          Inl e \<Rightarrow> (Threw e, [call], bs')
                        | Inr resp \<Rightarrow>
                            (case GET_relay w resp of
                               (out, calls) \<Rightarrow> (out, call # calls, bs'))))))"

subsection \<open>Sample inputs\<close>

text \<open>
  A lookup request with the index 1, a geocoding answer with two records (the second one
  without geometry), and a place-details answer of status 404.
\<close>

definition sample_body :: jsval where
  "sample_body = Obj [(''address'', Str '' 1 Main St ''), (''selectedIndex'', Num 1)]"

definition sample_request :: request where
  "sample_request =
     \<lparr>xff = Some ''203.0.113.9'', ip = None, json_body = Some sample_body,
      searchParams = [(''name'', ''places/abc/photos/x'')]\<rparr>"

definition sample_results :: "jsval list" where
  "sample_results =
     [Obj [(''formatted_address'', Str ''1 Main St, Springfield''),
           (''place_id'', Str ''pid-a''),
           (''geometry'', Obj [(''location'', Obj [(''lat'', Num 37), (''lng'', Num (-122))])])],
      Obj [(''formatted_address'', Str ''1 Main St, Shelbyville''),
           (''place_id'', Str ''pid-b'')]]"

definition sample_upstream :: "nat \<Rightarrow> jsval \<Rightarrow> upstream" where
  "sample_upstream st j =
     \<lparr>up_status = st, up_content_type = Some ''application/json; charset=UTF-8'',
      up_location = None, up_text = Some ''not found'', up_json = Inr j,
      up_arrayBuffer = Inr ''{}''\<rparr>"

definition sample_fetch :: "jsval list \<Rightarrow> outbound \<Rightarrow> thrown + upstream" where
  "sample_fetch results c =
     (case c of
        GeocodeCall a k \<Rightarrow> Inr (sample_upstream 200 (Obj [(''results'', Arr results)]))
      | PlaceDetailsCall p k m \<Rightarrow> Inr (sample_upstream 404 Null)
      | PhotoMediaCall n x y k \<Rightarrow>
          Inr (sample_upstream 200 (Obj [(''photoUri'', Str ''https://img.example/p.jpg'')]))
      | UrlCall u \<Rightarrow>
          Inr \<lparr>up_status = 200, up_content_type = Some ''image/png'', up_location = None,
               up_text = None, up_json = Inl (Failure (Some ''Unexpected token'')),
               up_arrayBuffer = Inr ''PNG-bytes''\<rparr>)"

definition sample_world :: "jsval list \<Rightarrow> world" where
  "sample_world results =
     \<lparr>t_rate = 1000, t_start = 1001, t_end = 1250, fetch = sample_fetch results\<rparr>"

definition sample_candidates :: "candidate list" where
  "sample_candidates =
     [\<lparr>formatted_address = Str ''1 Main St, Springfield'', place_id = Str ''pid-a'',
       lat = Num 37, lng = Num (- 122), address_components = Null\<rparr>,
      \<lparr>formatted_address = Str ''1 Main St, Shelbyville'', place_id = Str ''pid-b'',
       lat = Null, lng = Null, address_components = Null\<rparr>]"

text \<open>What the lookup handler answers to the sample request in the sample world.\<close>

definition sample_result :: lookup_result where
  "sample_result =
     \<lparr>geocode = \<lparr>query = ''1 Main St'', candidates = sample_candidates, selectedIndex = 1\<rparr>,
      place = Null,
      warnings = [''Multiple matches found; showing best match.'',
                  ''Places v1 details failed with status 404: not found''],
      latencyMs = Some 249\<rparr>"

definition sample_response :: response where
  "sample_response = \<lparr>status = 200, body = LookupJson sample_result, headers = []\<rparr>"

text \<open>
  Worlds for the photo proxy: the photo-media call answers \<open>first\<close>, every plain
  \<^verbatim>\<open>fetch(url)\<close> answers a PNG. Three shapes of \<open>first\<close>: the JSON with the media URL, a
  redirect, and the image itself.
\<close>

definition photo_world :: "upstream \<Rightarrow> world" where
  "photo_world first =
     \<lparr>t_rate = 1000, t_start = 1001, t_end = 1250,
      fetch = (\<lambda>c. case c of PhotoMediaCall n x y k \<Rightarrow> Inr first | _ \<Rightarrow> sample_fetch [] c)\<rparr>"

text \<open>The same, with every plain \<^verbatim>\<open>fetch(url)\<close> rejecting (the network is down).\<close>

definition photo_world_down :: "upstream \<Rightarrow> world" where
  "photo_world_down first =
     \<lparr>t_rate = 1000, t_start = 1001, t_end = 1250,
      fetch = (\<lambda>c. case c of PhotoMediaCall n x y k \<Rightarrow> Inr first
                   | _ \<Rightarrow> Inl (Failure (Some ''fetch failed'')))\<rparr>"

definition photo_json :: upstream where
  "photo_json = sample_upstream 200 (Obj [(''photoUri'', Str ''https://img.example/p.jpg'')])"

definition photo_redirect :: upstream where
  "photo_redirect =
     \<lparr>up_status = 302, up_content_type = None, up_location = Some ''https://img.example/r.jpg'',
      up_text = Some [], up_json = Inl (Failure (Some ''Unexpected end of JSON input'')),
      up_arrayBuffer = Inr []\<rparr>"

definition photo_direct :: upstream where
  "photo_direct =
     \<lparr>up_status = 200, up_content_type = None, up_location = None,
      up_text = None, up_json = Inl (Failure (Some ''Unexpected token'')),
      up_arrayBuffer = Inr ''JPEG-bytes''\<rparr>"

definition photo_response :: "string \<Rightarrow> string \<Rightarrow> response" where
  "photo_response contentType bytes =
     \<lparr>status = 200, body = Bytes bytes,
      headers = [(''content-type'', contentType), (''cache-control'', ''public, max-age=86400'')]\<rparr>"

section \<open>Properties\<close>

subsection \<open>Auxiliary facts\<close>

lemma map_candidates_length:
  "map_candidates rs = Inr cs \<Longrightarrow> length cs = length rs"
  by (induction rs arbitrary: cs) (auto split: sum.splits)


lemma POST_select_Responded:
  assumes "POST_select w key address sel results = (Responded resp, calls)"
  obtains cands p ws where
    "map_candidates results = Inr cands"
    "nat (case sel of Some i \<Rightarrow> if i \<ge> 0 \<and> i < int (length cands) then i else 0 | None \<Rightarrow> 0) < length cands"
    "resp = \<lparr>status = 200,
             body = LookupJson
               \<lparr>geocode = \<lparr>query = address, candidates = cands,
                   selectedIndex = (case sel of Some i \<Rightarrow> if i \<ge> 0 \<and> i < int (length cands) then i else 0 | None \<Rightarrow> 0)\<rparr>,
                place = p,
                warnings = (if length cands > 1 then [MULTIPLE_MATCHES] else []) @ ws,
                latencyMs = Some (t_end w - t_start w)\<rparr>,
             headers = []\<rparr>"
proof (cases "map_candidates results")
  case (Inl e)
  with assms show ?thesis by (simp add: POST_select_def)
next
  case (Inr cands)
  define idx where "idx = (case sel of Some i \<Rightarrow> if i \<ge> 0 \<and> i < int (length cands) then i else 0 | None \<Rightarrow> 0)"
  have inr: "nat idx < length cands"
    using assms Inr by (cases "nat idx < length cands") (simp_all add: POST_select_def idx_def Let_def)
  show ?thesis
  proof (cases "truthy (place_id (cands ! nat idx))")
    case False
    with assms Inr inr show ?thesis
      by (intro that[of cands]) (auto simp add: POST_select_def idx_def Let_def)
  next
    case True
    with assms Inr inr show ?thesis
      by (cases "fetchPlaceDetailsNew (fetch w) key (place_id (cands ! nat idx))")
         (auto simp add: POST_select_def idx_def Let_def intro!: that[of cands])
  qed
qed

lemma POST_200_cases:
  assumes P: "POST bs gk w req = (Responded resp, calls, bs')" and st: "status resp = 200"
  obtains (no_match) key b address sel geoRes geoData results where
      "gk = Some key" "json_body req = Some b" "BodySchema_safeParse b = Inr (address, sel)"
      "fetch w (GeocodeCall address key) = Inr geoRes" "ok geoRes"
      "up_json geoRes = Inr geoData" "get_prop geoData ''results'' = Inr results"
      "\<forall>r rs. results \<noteq> Arr (r # rs)"
      "resp = \<lparr>status = 200,
              body = LookupJson
                \<lparr>geocode = \<lparr>query = address, candidates = [], selectedIndex = 0\<rparr>,
                 place = Null, warnings = [NO_MATCH], latencyMs = None\<rparr>,
              headers = []\<rparr>"
      "calls = [GeocodeCall address key]"
    | (matches) key b address sel geoRes geoData r rs calls' where
      "gk = Some key" "json_body req = Some b" "BodySchema_safeParse b = Inr (address, sel)"
      "fetch w (GeocodeCall address key) = Inr geoRes" "ok geoRes"
      "up_json geoRes = Inr geoData" "get_prop geoData ''results'' = Inr (Arr (r # rs))"
      "POST_select w key address sel (r # rs) = (Responded resp, calls')"
      "calls = GeocodeCall address key # calls'"
proof -
  obtain rl bs1 where 1: "rateLimit bs req (t_rate w) = (rl, bs1)"
    by (cases "rateLimit bs req (t_rate w)")
  have 2: "rl = None"
    using P st 1 by (cases rl) (auto simp add: POST_def json_error_def)
  obtain key where 3: "gk = Some key" "key \<noteq> []"
    using P st 1 2 by (cases gk) (auto simp add: POST_def json_error_def split: if_splits)
  obtain b where 4: "json_body req = Some b"
    using P st 1 2 3 by (cases "json_body req") (auto simp add: POST_def json_error_def)
  obtain address sel where 5: "BodySchema_safeParse b = Inr (address, sel)"
    using P st 1 2 3 4 by (cases "BodySchema_safeParse b") (auto simp add: POST_def)
  obtain geoRes where 6: "fetch w (GeocodeCall address key) = Inr geoRes"
    using P st 1 2 3 4 5 by (cases "fetch w (GeocodeCall address key)") (auto simp add: POST_def)
  have 7: "ok geoRes"
    using P st 1 2 3 4 5 6 by (cases "ok geoRes") (auto simp add: POST_def json_error_def)
  obtain geoData where 8: "up_json geoRes = Inr geoData"
    using P st 1 2 3 4 5 6 7 by (cases "up_json geoRes") (auto simp add: POST_def)
  obtain results where 9: "get_prop geoData ''results'' = Inr results"
    using P st 1 2 3 4 5 6 7 8 by (cases "get_prop geoData ''results''") (auto simp add: POST_def)
  show thesis
  proof (cases "\<exists>r rs. results = Arr (r # rs)")
    case True
    then obtain r rs where 10: "results = Arr (r # rs)" by blast
    obtain out calls' where 11: "POST_select w key address sel (r # rs) = (out, calls')"
      by (cases "POST_select w key address sel (r # rs)")
    have "out = Responded resp" "calls = GeocodeCall address key # calls'"
      using P 1 2 3 4 5 6 7 8 9 10 11 by (auto simp add: POST_def)
    with 11 show thesis
      using matches[OF 3(1) 4 5 6 7 8 9[unfolded 10]] by blast
  next
    case False
    then have nm: "\<forall>r rs. results \<noteq> Arr (r # rs)" by blast
    have "resp = \<lparr>status = 200,
              body = LookupJson
                \<lparr>geocode = \<lparr>query = address, candidates = [], selectedIndex = 0\<rparr>,
                 place = Null, warnings = [NO_MATCH], latencyMs = None\<rparr>,
              headers = []\<rparr> \<and> calls = [GeocodeCall address key]"
      using P 1 2 3 4 5 6 7 8 9 nm
      by (cases results; simp add: POST_def split: list.splits)
    then show thesis
      using no_match[OF 3(1) 4 5 6 7 8 9 nm] by blast
  qed
qed

lemma POST_geocoded:
  assumes "rateLimit bs req (t_rate w) = (None, bs')" "gk = Some key" "key \<noteq> []"
    "json_body req = Some b" "BodySchema_safeParse b = Inr (address, sel)"
    "fetch w (GeocodeCall address key) = Inr geoRes" "ok geoRes"
    "up_json geoRes = Inr geoData" "get_prop geoData ''results'' = Inr results"
  shows "POST bs gk w req =
     (case results of
        Arr (r # rs) \<Rightarrow>
          (case POST_select w key address sel (r # rs) of
             (out, calls) \<Rightarrow> (out, GeocodeCall address key # calls, bs'))
      | _ \<Rightarrow>
          (Responded
             \<lparr>status = 200,
              body = LookupJson
                \<lparr>geocode = \<lparr>query = address, candidates = [], selectedIndex = 0\<rparr>,
                 place = Null, warnings = [NO_MATCH], latencyMs = None\<rparr>,
              headers = []\<rparr>,
           [GeocodeCall address key], bs'))"
  using assms by (simp add: POST_def)

lemma sample_rateLimit:
  "rateLimit Map.empty sample_request 1000 = (None, [''203.0.113.9'' \<mapsto> [1000]])"
  by (simp add: rateLimit_def getIp_def sample_request_def bucket_of_def Let_def
      MAX_REQUESTS_def trim_def is_ws_def split_comma_first_def)

lemma sample_json_body: "json_body sample_request = Some sample_body"
  by (simp add: sample_request_def)

lemma sample_parse: "BodySchema_safeParse sample_body = Inr (''1 Main St'', Some 1)"
  by (simp add: sample_body_def BodySchema_safeParse_def trim_def is_ws_def)

lemma sample_geocode_fetch:
  "fetch (sample_world rs) (GeocodeCall a k)
     = Inr (sample_upstream 200 (Obj [(''results'', Arr rs)]))"
  by (simp add: sample_world_def sample_fetch_def)

lemma sample_upstream_simps:
  "ok (sample_upstream 200 j)" "\<not> ok (sample_upstream 404 j)"
  "up_json (sample_upstream st j) = Inr j" "up_status (sample_upstream st j) = st"
  "up_text (sample_upstream st j) = Some ''not found''"
  by (simp_all add: sample_upstream_def ok_def)

lemma sample_map_candidates: "map_candidates sample_results = Inr sample_candidates"
  by (simp add: sample_results_def sample_candidates_def toCandidate_def)

lemma sample_details:
  "fetchPlaceDetailsNew (fetch (sample_world rs)) ''key'' p
     = Inl (Failure (Some ''Places v1 details failed with status 404: not found''))"
  by (simp add: fetchPlaceDetailsNew_def sample_world_def sample_fetch_def sample_upstream_simps
      string_of_nat.simps)

lemma sample_POST_select:
  "POST_select (sample_world sample_results) ''key'' ''1 Main St'' (Some 1) sample_results
     = (Responded sample_response, [PlaceDetailsCall (Str ''pid-b'') ''key'' PLACE_FIELD_MASK])"
  unfolding POST_select_def sample_map_candidates sample_details
  by (simp add: sample_candidates_def sample_world_def MULTIPLE_MATCHES_def
      sample_response_def sample_result_def)

lemma sample_POST:
  "POST Map.empty (Some ''key'') (sample_world sample_results) sample_request
     = (Responded sample_response,
        [GeocodeCall ''1 Main St'' ''key'',
         PlaceDetailsCall (Str ''pid-b'') ''key'' PLACE_FIELD_MASK],
        [''203.0.113.9'' \<mapsto> [1000]])"
proof -
  have "t_rate (sample_world sample_results) = 1000"
    by (simp add: sample_world_def)
  then have "POST Map.empty (Some ''key'') (sample_world sample_results) sample_request =
     (case Arr sample_results of
        Arr (r # rs) \<Rightarrow>
          (case POST_select (sample_world sample_results) ''key'' ''1 Main St'' (Some 1) (r # rs) of
             (out, calls) \<Rightarrow>
               (out, GeocodeCall ''1 Main St'' ''key'' # calls, [''203.0.113.9'' \<mapsto> [1000]]))
      | _ \<Rightarrow>
          (Responded
             \<lparr>status = 200,
              body = LookupJson
                \<lparr>geocode = \<lparr>query = ''1 Main St'', candidates = [], selectedIndex = 0\<rparr>,
                 place = Null, warnings = [NO_MATCH], latencyMs = None\<rparr>,
              headers = []\<rparr>,
           [GeocodeCall ''1 Main St'' ''key''], [''203.0.113.9'' \<mapsto> [1000]]))"
    by (intro POST_geocoded[where b = sample_body
          and geoRes = "sample_upstream 200 (Obj [(''results'', Arr sample_results)])"
          and geoData = "Obj [(''results'', Arr sample_results)]"])
       (simp_all add: sample_rateLimit sample_parse sample_json_body
          sample_geocode_fetch sample_upstream_simps)
  also have "\<dots> = (Responded sample_response,
        [GeocodeCall ''1 Main St'' ''key'',
         PlaceDetailsCall (Str ''pid-b'') ''key'' PLACE_FIELD_MASK],
        [''203.0.113.9'' \<mapsto> [1000]])"
    using sample_POST_select by (simp add: sample_results_def)
  finally show ?thesis .
qed

lemma fetchPlaceDetailsNew_Inl:
  assumes "fetchPlaceDetailsNew f key p = Inl e"
  shows "f (PlaceDetailsCall p key PLACE_FIELD_MASK) = Inl e
       \<or> (\<exists>d t. f (PlaceDetailsCall p key PLACE_FIELD_MASK) = Inr d \<and> \<not> ok d
              \<and> e = Failure (Some (''Places v1 details failed with status '' @ t)))
       \<or> (\<exists>d. f (PlaceDetailsCall p key PLACE_FIELD_MASK) = Inr d \<and> ok d \<and> up_json d = Inl e)"
proof (cases "f (PlaceDetailsCall p key PLACE_FIELD_MASK)")
  case (Inl a)
  with assms show ?thesis by (simp add: fetchPlaceDetailsNew_def)
next
  case (Inr d)
  with assms show ?thesis
    by (cases "ok d") (auto simp add: fetchPlaceDetailsNew_def Let_def)
qed

lemma POST_select_warnings:
  assumes "POST_select w key address sel results = (Responded resp, calls)"
    and "body resp = LookupJson res"
  shows "\<exists>cands m. map_candidates results = Inr cands
     \<and> warnings res = (if length cands > 1 then [MULTIPLE_MATCHES] else []) @ [m]
     \<and> (m = ''No place_id from geocoding; place details not available.''
        \<or> m = ''Places details returned from Places API (New); attribute availability varies by place.''
        \<or> (\<exists>e p. fetchPlaceDetailsNew (fetch w) key p = Inl e
              \<and> m = (case message_of e of Some m \<Rightarrow> m | None \<Rightarrow> ''Place details fetch failed'')))"
proof (cases "map_candidates results")
  case (Inl e)
  with assms show ?thesis by (simp add: POST_select_def)
next
  case (Inr cands)
  define idx where "idx = (case sel of Some i \<Rightarrow> if i \<ge> 0 \<and> i < int (length cands) then i else 0 | None \<Rightarrow> 0)"
  have inr: "nat idx < length cands"
    using assms Inr by (cases "nat idx < length cands") (simp_all add: POST_select_def idx_def Let_def)
  show ?thesis
  proof (cases "truthy (place_id (cands ! nat idx))")
    case False
    with assms Inr inr show ?thesis
      by (auto simp add: POST_select_def idx_def Let_def)
  next
    case True
    show ?thesis
    proof (cases "fetchPlaceDetailsNew (fetch w) key (place_id (cands ! nat idx))")
      case (Inl e)
      have "warnings res = (if length cands > 1 then [MULTIPLE_MATCHES] else [])
              @ [case message_of e of Some m \<Rightarrow> m | None \<Rightarrow> ''Place details fetch failed'']"
        using True assms Inr Inl inr by (auto simp add: POST_select_def idx_def Let_def)
      with Inr Inl show ?thesis by blast
    next
      case Inr2: (Inr p)
      with True assms Inr inr show ?thesis
        by (auto simp add: POST_select_def idx_def Let_def)
    qed
  qed
qed

lemma fetchPlaceDetailsNew_throws:
  assumes "f (PlaceDetailsCall p key PLACE_FIELD_MASK) = Inl e
       \<or> (\<exists>d. f (PlaceDetailsCall p key PLACE_FIELD_MASK) = Inr d \<and> \<not> ok d
              \<and> e = Failure (Some (''Places v1 details failed with status ''
                    @ string_of_nat (up_status d)
                    @ (case up_text d of Some t \<Rightarrow> if t \<noteq> [] then '': '' @ t else []
                       | None \<Rightarrow> []))))
       \<or> (\<exists>d. f (PlaceDetailsCall p key PLACE_FIELD_MASK) = Inr d \<and> ok d \<and> up_json d = Inl e)"
  shows "fetchPlaceDetailsNew f key p = Inl e"
  using assms
  by (auto simp add: fetchPlaceDetailsNew_def Let_def split: option.splits if_splits)

lemma POST_select_throws:
  assumes "map_candidates results = Inr cands"
    and "idx = (case sel of Some i \<Rightarrow> if 0 \<le> i \<and> i < int (length cands) then i else 0
                | None \<Rightarrow> 0)"
    and "nat idx < length cands"
    and "truthy (place_id (cands ! nat idx))"
    and "fetchPlaceDetailsNew (fetch w) key (place_id (cands ! nat idx)) = Inl e"
  shows "POST_select w key address sel results =
     (Responded
        \<lparr>status = 200,
         body = LookupJson
           \<lparr>geocode = \<lparr>query = address, candidates = cands, selectedIndex = idx\<rparr>,
            place = Null,
            warnings = (if length cands > 1 then [MULTIPLE_MATCHES] else [])
               @ [case message_of e of Some m \<Rightarrow> m | None \<Rightarrow> ''Place details fetch failed''],
            latencyMs = Some (t_end w - t_start w)\<rparr>,
         headers = []\<rparr>,
      [PlaceDetailsCall (place_id (cands ! nat idx)) key PLACE_FIELD_MASK])"
  using assms by (simp add: POST_select_def Let_def)

lemma sample_POST_geocoded:
  "POST Map.empty (Some ''key'') (sample_world rs) sample_request =
     (case Arr rs of
        Arr (r # rs') \<Rightarrow>
          (case POST_select (sample_world rs) ''key'' ''1 Main St'' (Some 1) (r # rs') of
             (out, calls) \<Rightarrow>
               (out, GeocodeCall ''1 Main St'' ''key'' # calls, [''203.0.113.9'' \<mapsto> [1000]]))
      | _ \<Rightarrow>
          (Responded
             \<lparr>status = 200,
              body = LookupJson
                \<lparr>geocode = \<lparr>query = ''1 Main St'', candidates = [], selectedIndex = 0\<rparr>,
                 place = Null, warnings = [NO_MATCH], latencyMs = None\<rparr>,
              headers = []\<rparr>,
           [GeocodeCall ''1 Main St'' ''key''], [''203.0.113.9'' \<mapsto> [1000]]))"
proof -
  have "t_rate (sample_world rs) = 1000"
    by (simp add: sample_world_def)
  then show ?thesis
    by (intro POST_geocoded[where b = sample_body
          and geoRes = "sample_upstream 200 (Obj [(''results'', Arr rs)])"
          and geoData = "Obj [(''results'', Arr rs)]"])
       (simp_all add: sample_rateLimit sample_parse sample_json_body
          sample_geocode_fetch sample_upstream_simps)
qed

lemma sample_POST_no_match:
  "POST Map.empty (Some ''key'') (sample_world []) sample_request
     = (Responded
          \<lparr>status = 200,
           body = LookupJson
             \<lparr>geocode = \<lparr>query = ''1 Main St'', candidates = [], selectedIndex = 0\<rparr>,
              place = Null, warnings = [''No match found.''], latencyMs = None\<rparr>,
           headers = []\<rparr>,
        [GeocodeCall ''1 Main St'' ''key''], [''203.0.113.9'' \<mapsto> [1000]])"
  by (simp add: sample_POST_geocoded NO_MATCH_def)

lemma sample_POST_single:
  "POST Map.empty (Some ''key'') (sample_world [hd sample_results]) sample_request
     = (Responded
          \<lparr>status = 200,
           body = LookupJson
             \<lparr>geocode = \<lparr>query = ''1 Main St'', candidates = [hd sample_candidates],
                          selectedIndex = 0\<rparr>,
              place = Null,
              warnings = [''Places v1 details failed with status 404: not found''],
              latencyMs = Some 249\<rparr>,
           headers = []\<rparr>,
        [GeocodeCall ''1 Main St'' ''key'',
         PlaceDetailsCall (Str ''pid-a'') ''key'' PLACE_FIELD_MASK],
        [''203.0.113.9'' \<mapsto> [1000]])"
proof -
  have m: "map_candidates [hd sample_results] = Inr [hd sample_candidates]"
    by (simp add: sample_results_def sample_candidates_def toCandidate_def)
  have "POST_select (sample_world [hd sample_results]) ''key'' ''1 Main St'' (Some 1)
          [hd sample_results]
     = (Responded
          \<lparr>status = 200,
           body = LookupJson
             \<lparr>geocode = \<lparr>query = ''1 Main St'', candidates = [hd sample_candidates],
                          selectedIndex = 0\<rparr>,
              place = Null,
              warnings = [''Places v1 details failed with status 404: not found''],
              latencyMs = Some 249\<rparr>,
           headers = []\<rparr>,
        [PlaceDetailsCall (Str ''pid-a'') ''key'' PLACE_FIELD_MASK])"
    unfolding POST_select_def m sample_details
    by (simp add: sample_candidates_def sample_world_def)
  then show ?thesis
    by (simp add: sample_POST_geocoded)
qed

lemma sample_runtime_messages:
  "(\<forall>c e. fetch (sample_world rs) c = Inl e \<longrightarrow> message_of e \<noteq> Some MULTIPLE_MATCHES)
   \<and> (\<forall>c d e. fetch (sample_world rs) c = Inr d \<and> up_json d = Inl e
         \<longrightarrow> message_of e \<noteq> Some MULTIPLE_MATCHES)"
  by (auto simp add: sample_world_def sample_fetch_def sample_upstream_def MULTIPLE_MATCHES_def
      split: outbound.splits)

lemma sample_clock:
  "t_rate (sample_world rs) = 1000" "t_start (sample_world rs) = 1001"
  "t_end (sample_world rs) = 1250"
  by (simp_all add: sample_world_def)

lemma sample_details_fetch:
  "fetch (sample_world rs) (PlaceDetailsCall p k m) = Inr (sample_upstream 404 Null)"
  by (simp add: sample_world_def sample_fetch_def)

lemma POST_select_body:
  assumes "POST_select w key address sel results = (Responded resp, calls)"
  shows "\<exists>res. body resp = LookupJson res"
  using assms by (rule POST_select_Responded) simp

lemma sample_results_length: "length sample_results = 2"
  by (simp add: sample_results_def)

lemma GET_admitted:
  assumes "rateLimit bs req (t_rate w) = (None, bs')"
    and "gk = Some key" and "key \<noteq> []"
    and "orElse (param req ''photoName'') (orElse (param req ''name'') (param req ''photoRef''))
           = Some name"
    and "prefix ''places/'' name"
    and "maxWidthPx = (case orElse (param req ''maxWidthPx'') (param req ''maxwidth'') of
                         Some x \<Rightarrow> x | None \<Rightarrow> ''400'')"
    and "maxHeightPx = orElse (param req ''maxHeightPx'') (param req ''maxheight'')"
    and "call = PhotoMediaCall name maxWidthPx
                  (if maxHeightPx = Some [] then None else maxHeightPx) key"
  shows "GET bs gk w req =
     (case fetch w call of
        Inl e \<Rightarrow> (Threw e, [call], bs')
      | Inr resp \<Rightarrow> (case GET_relay w resp of (out, calls) \<Rightarrow> (out, call # calls, bs')))"
proof -
  have "name \<noteq> []" using assms(5) by auto
  then show ?thesis
    unfolding assms(8) assms(6) assms(7)
    using assms(1-5) by (simp add: GET_def Let_def)
qed

lemma photo_reply_headers:
  assumes "photo_reply r = Responded resp"
  shows "status resp = 200 \<and> map_of (headers resp) ''cache-control'' = Some CACHE_CONTROL"
  using assms by (auto simp add: photo_reply_def Let_def split: sum.splits)

lemma GET_relay_200:
  assumes "GET_relay w resp0 = (Responded resp, calls)" and "status resp = 200"
  shows "\<exists>r. photo_reply r = Responded resp"
proof (cases "ok resp0 \<and> includes_str (case up_content_type resp0 of Some c \<Rightarrow> c | None \<Rightarrow> [])
                      ''application/json''")
  case True
  define mediaUrl where
    "mediaUrl = opt_prop (case up_json resp0 of Inl e \<Rightarrow> Null | Inr d \<Rightarrow> d) ''photoUri''"
  have t: "truthy mediaUrl"
    using assms True
    by (cases "truthy mediaUrl") (auto simp add: GET_relay_def Let_def mediaUrl_def text_response_def)
  show ?thesis
  proof (cases "fetch w (UrlCall mediaUrl)")
    case (Inl e)
    with assms True t show ?thesis
      by (auto simp add: GET_relay_def Let_def mediaUrl_def)
  next
    case (Inr m)
    with assms True t show ?thesis
      by (cases "ok m") (auto simp add: GET_relay_def Let_def mediaUrl_def text_response_def)
  qed
next
  case False
  note nj = False
  show ?thesis
  proof (cases "up_status resp0 \<ge> 300 \<and> up_status resp0 < 400")
    case True
    show ?thesis
    proof (cases "if up_location resp0 = Some [] then None else up_location resp0")
      case None
      with assms nj True show ?thesis
        by (auto simp add: GET_relay_def text_response_def)
    next
      case (Some loc)
      show ?thesis
      proof (cases "fetch w (UrlCall (Str loc))")
        case (Inl e)
        with assms nj True Some show ?thesis
          by (auto simp add: GET_relay_def)
      next
        case (Inr m)
        with assms nj True Some show ?thesis
          by (cases "ok m") (auto simp add: GET_relay_def text_response_def)
      qed
    qed
  next
    case False
    with assms nj show ?thesis
      by (cases "ok resp0") (auto simp add: GET_relay_def text_response_def)
  qed
qed

lemma GET_200:
  assumes G: "GET bs gk w req = (Responded resp, calls, bs')" and st: "status resp = 200"
  shows "\<exists>r. photo_reply r = Responded resp"
proof -
  obtain rl bs1 where 1: "rateLimit bs req (t_rate w) = (rl, bs1)"
    by (cases "rateLimit bs req (t_rate w)")
  have 2: "rl = None"
    using G st 1 by (cases rl) (auto simp add: GET_def text_response_def)
  obtain key where 3: "gk = Some key" "key \<noteq> []"
    using G st 1 2 by (cases gk) (auto simp add: GET_def text_response_def split: if_splits)
  define photoName where
    "photoName = orElse (param req ''photoName'') (orElse (param req ''name'') (param req ''photoRef''))"
  obtain name where 4: "photoName = Some name" "name \<noteq> []"
    using G st 1 2 3
    by (cases photoName) (auto simp add: GET_def Let_def text_response_def photoName_def split: if_splits)
  have 5: "prefix ''places/'' name"
    using G st 1 2 3 4
    by (cases "prefix ''places/'' name")
       (auto simp add: GET_def Let_def text_response_def photoName_def)
  define call where "call = PhotoMediaCall name
       (case orElse (param req ''maxWidthPx'') (param req ''maxwidth'') of
                         Some x \<Rightarrow> x | None \<Rightarrow> ''400'')
       (if orElse (param req ''maxHeightPx'') (param req ''maxheight'') = Some [] then None
        else orElse (param req ''maxHeightPx'') (param req ''maxheight'')) key"
  have eq: "GET bs gk w req =
     (case fetch w call of
        Inl e \<Rightarrow> (Threw e, [call], bs1)
      | Inr resp \<Rightarrow> (case GET_relay w resp of (out, calls) \<Rightarrow> (out, call # calls, bs1)))"
    using 1 2 3 4 5
    by (intro GET_admitted[where name = name]) (simp_all add: photoName_def call_def)
  obtain resp0 where 6: "fetch w call = Inr resp0"
    using G eq by (cases "fetch w call") auto
  obtain out calls' where 7: "GET_relay w resp0 = (out, calls')"
    by (cases "GET_relay w resp0")
  have "out = Responded resp" using G eq 6 7 by simp
  with 7 st show ?thesis by (auto intro: GET_relay_200)
qed

lemma sample_rateLimit_params:
  "rateLimit Map.empty (sample_request\<lparr>searchParams := ps\<rparr>) 1000
     = (None, [''203.0.113.9'' \<mapsto> [1000]])"
  by (simp add: rateLimit_def getIp_def sample_request_def bucket_of_def Let_def
      MAX_REQUESTS_def trim_def is_ws_def split_comma_first_def)

lemma photo_world_simps:
  "t_rate (photo_world first) = 1000"
  "fetch (photo_world first) (PhotoMediaCall n x y k) = Inr first"
  "fetch (photo_world first) (UrlCall u) =
     Inr \<lparr>up_status = 200, up_content_type = Some ''image/png'', up_location = None,
          up_text = None, up_json = Inl (Failure (Some ''Unexpected token'')),
          up_arrayBuffer = Inr ''PNG-bytes''\<rparr>"
  by (simp_all add: photo_world_def sample_fetch_def)

lemma sample_photo_name:
  "orElse (param sample_request ''photoName'')
     (orElse (param sample_request ''name'') (param sample_request ''photoRef''))
     = Some ''places/abc/photos/x''"
  "orElse (param sample_request ''maxWidthPx'') (param sample_request ''maxwidth'') = None"
  "orElse (param sample_request ''maxHeightPx'') (param sample_request ''maxheight'') = None"
  by (simp_all add: param_def sample_request_def)

lemma sample_GET_admitted:
  "GET Map.empty (Some ''key'') (photo_world first) sample_request =
     (case GET_relay (photo_world first) first of
        (out, calls) \<Rightarrow>
          (out, PhotoMediaCall ''places/abc/photos/x'' ''400'' None ''key'' # calls,
           [''203.0.113.9'' \<mapsto> [1000]]))"
proof -
  have "GET Map.empty (Some ''key'') (photo_world first) sample_request =
     (case fetch (photo_world first)
             (PhotoMediaCall ''places/abc/photos/x'' ''400'' None ''key'') of
        Inl e \<Rightarrow> (Threw e, [PhotoMediaCall ''places/abc/photos/x'' ''400'' None ''key''],
                  [''203.0.113.9'' \<mapsto> [1000]])
      | Inr resp \<Rightarrow>
          (case GET_relay (photo_world first) resp of
             (out, calls) \<Rightarrow>
               (out, PhotoMediaCall ''places/abc/photos/x'' ''400'' None ''key'' # calls,
                [''203.0.113.9'' \<mapsto> [1000]])))"
    by (rule GET_admitted[where key = "''key''" and name = "''places/abc/photos/x''"
          and maxWidthPx = "''400''" and maxHeightPx = None])
       (simp_all add: photo_world_simps sample_rateLimit sample_photo_name)
  then show ?thesis by (simp add: photo_world_simps)
qed

lemma sample_GET_json:
  "GET Map.empty (Some ''key'') (photo_world photo_json) sample_request =
     (Responded (photo_response ''image/png'' ''PNG-bytes''),
      [PhotoMediaCall ''places/abc/photos/x'' ''400'' None ''key'',
       UrlCall (Str ''https://img.example/p.jpg'')],
      [''203.0.113.9'' \<mapsto> [1000]])"
  unfolding sample_GET_admitted
  by (simp add: GET_relay_def photo_json_def sample_upstream_def ok_def photo_world_simps
      photo_reply_def photo_response_def CACHE_CONTROL_def)

lemma sample_GET_redirect:
  "GET Map.empty (Some ''key'') (photo_world photo_redirect) sample_request =
     (Responded (photo_response ''image/png'' ''PNG-bytes''),
      [PhotoMediaCall ''places/abc/photos/x'' ''400'' None ''key'',
       UrlCall (Str ''https://img.example/r.jpg'')],
      [''203.0.113.9'' \<mapsto> [1000]])"
  unfolding sample_GET_admitted
  by (simp add: GET_relay_def photo_redirect_def ok_def photo_world_simps
      photo_reply_def photo_response_def CACHE_CONTROL_def)

lemma sample_GET_direct:
  "GET Map.empty (Some ''key'') (photo_world photo_direct) sample_request =
     (Responded (photo_response ''image/jpeg'' ''JPEG-bytes''),
      [PhotoMediaCall ''places/abc/photos/x'' ''400'' None ''key''],
      [''203.0.113.9'' \<mapsto> [1000]])"
  unfolding sample_GET_admitted
  by (simp add: GET_relay_def photo_direct_def ok_def photo_world_simps
      photo_reply_def photo_response_def CACHE_CONTROL_def)

lemma photo_world_down_simps:
  "t_rate (photo_world_down first) = 1000"
  "fetch (photo_world_down first) (PhotoMediaCall n x y k) = Inr first"
  "fetch (photo_world_down first) (UrlCall u) = Inl (Failure (Some ''fetch failed''))"
  by (simp_all add: photo_world_down_def)

lemma photo_json_simps:
  "200 \<le> up_status photo_json \<and> up_status photo_json \<le> 299"
  "ok photo_json"
  "includes_str (case up_content_type photo_json of Some c \<Rightarrow> c | None \<Rightarrow> [])
     ''application/json''"
  "opt_prop (case up_json photo_json of Inl e \<Rightarrow> Null | Inr d \<Rightarrow> d) ''photoUri''
     = Str ''https://img.example/p.jpg''"
  by (simp_all add: photo_json_def sample_upstream_def ok_def)

lemma sample_GET_down:
  "GET Map.empty (Some ''key'') (photo_world_down photo_json) sample_request =
     (Threw (Failure (Some ''fetch failed'')),
      [PhotoMediaCall ''places/abc/photos/x'' ''400'' None ''key'',
       UrlCall (Str ''https://img.example/p.jpg'')],
      [''203.0.113.9'' \<mapsto> [1000]])"
proof -
  have "GET Map.empty (Some ''key'') (photo_world_down photo_json) sample_request =
     (case fetch (photo_world_down photo_json)
             (PhotoMediaCall ''places/abc/photos/x'' ''400'' None ''key'') of
        Inl e \<Rightarrow> (Threw e, [PhotoMediaCall ''places/abc/photos/x'' ''400'' None ''key''],
                  [''203.0.113.9'' \<mapsto> [1000]])
      | Inr resp \<Rightarrow>
          (case GET_relay (photo_world_down photo_json) resp of
             (out, calls) \<Rightarrow>
               (out, PhotoMediaCall ''places/abc/photos/x'' ''400'' None ''key'' # calls,
                [''203.0.113.9'' \<mapsto> [1000]])))"
    by (rule GET_admitted[where key = "''key''" and name = "''places/abc/photos/x''"
          and maxWidthPx = "''400''" and maxHeightPx = None])
       (simp_all add: photo_world_down_simps sample_rateLimit sample_photo_name)
  then show ?thesis
    by (simp add: photo_world_down_simps GET_relay_def photo_json_simps)
qed

lemma nullish_or_Null_defined: "nullish_or v Null \<noteq> Undefined"
  by (cases v) simp_all

lemma get_prop_non_null:
  "r \<noteq> Null \<Longrightarrow> r \<noteq> Undefined \<Longrightarrow> get_prop r k = Inr (opt_prop r k)"
  by (cases r) simp_all

lemma toCandidate_non_null:
  assumes "r \<noteq> Null" and "r \<noteq> Undefined"
  shows "toCandidate r =
     Inr \<lparr>formatted_address = opt_prop r ''formatted_address'',
          place_id = nullish_or (opt_prop r ''place_id'') Null,
          lat = nullish_or (opt_prop (opt_prop (opt_prop r ''geometry'') ''location'') ''lat'') Null,
          lng = nullish_or (opt_prop (opt_prop (opt_prop r ''geometry'') ''location'') ''lng'') Null,
          address_components = nullish_or (opt_prop r ''address_components'') Null\<rparr>"
  by (simp add: toCandidate_def get_prop_non_null[OF assms])

lemma sample_POST_null_record:
  "POST Map.empty (Some ''key'') (sample_world [Null]) sample_request
     = (Threw (TypeError ''formatted_address''), [GeocodeCall ''1 Main St'' ''key''],
        [''203.0.113.9'' \<mapsto> [1000]])"
  by (simp add: sample_POST_geocoded POST_select_def toCandidate_def)

subsection \<open>The rate limiter\<close>

lemma bucket_of_rateLimit:
  "bucket_of (snd (rateLimit bs req now)) (getIp req)
     = filter (\<lambda>t. now - t < 60000) (bucket_of bs (getIp req)) @ [now]"
  by (simp add: rateLimit_def Let_def bucket_of_def WINDOW_MS_def)

lemma rateLimit_rejects:
  "fst (rateLimit bs req now) \<noteq> None
     \<longleftrightarrow> length (bucket_of (snd (rateLimit bs req now)) (getIp req)) > 30"
  by (simp add: rateLimit_def Let_def bucket_of_def MAX_REQUESTS_def)

text \<open>
  Runs under a clock that does not go backwards: after calls at the times \<open>ts\<close>, the stored
  sequence is exactly the part of the earlier entries and of \<open>ts\<close> that lies inside the
  window ending at the last call; so, for a client without earlier entries, the next call is
  rejected exactly when more than 30 of the calls made so far, itself included, lie inside
  the trailing window.
\<close>

lemma rateLimit_calls_window:
  assumes "sorted (bucket_of bs (getIp req) @ ts)" and "ts \<noteq> []"
  shows "bucket_of (rateLimit_calls bs req ts) (getIp req)
     = filter (\<lambda>t. last ts - t < 60000) (bucket_of bs (getIp req) @ ts)"
  using assms
proof (induction ts arbitrary: bs)
  case Nil
  then show ?case by simp
next
  case (Cons t ts)
  let ?old = "bucket_of bs (getIp req)"
  let ?bs1 = "snd (rateLimit bs req t)"
  have b1: "bucket_of ?bs1 (getIp req) = filter (\<lambda>x. t - x < 60000) ?old @ [t]"
    by (rule bucket_of_rateLimit)
  show ?case
  proof (cases "ts = []")
    case True
    then show ?thesis by (simp add: b1)
  next
    case False
    have srt: "sorted (?old @ t # ts)" using Cons.prems(1) by simp
    have s1: "sorted (bucket_of ?bs1 (getIp req) @ ts)"
      unfolding b1 using srt by (auto simp add: sorted_append sorted_wrt_filter)
    have le: "t \<le> last ts" using srt False by (auto simp add: sorted_append)
    have "bucket_of (rateLimit_calls ?bs1 req ts) (getIp req)
        = filter (\<lambda>x. last ts - x < 60000) (bucket_of ?bs1 (getIp req) @ ts)"
      by (rule Cons.IH[OF s1 False])
    also have "\<dots> = filter (\<lambda>x. last ts - x < 60000) (?old @ t # ts)"
      unfolding b1 using le by (auto intro: filter_cong)
    finally show ?thesis using False by simp
  qed
qed

lemma rateLimit_after_calls:
  assumes "bs (getIp req) = None" and "sorted (ts @ [now])"
  shows "fst (rateLimit (rateLimit_calls bs req ts) req now) \<noteq> None
     \<longleftrightarrow> length (filter (\<lambda>t. now - t < 60000) (ts @ [now])) > 30"
proof -
  have old: "bucket_of bs (getIp req) = []" using assms(1) by (simp add: bucket_of_def)
  have "bucket_of (rateLimit_calls bs req (ts @ [now])) (getIp req)
      = filter (\<lambda>t. now - t < 60000) (ts @ [now])"
    using rateLimit_calls_window[of bs req "ts @ [now]"] assms(2) old by simp
  moreover have "rateLimit_calls bs req (ts @ [now])
      = snd (rateLimit (rateLimit_calls bs req ts) req now)"
    by (induction ts arbitrary: bs) simp_all
  ultimately have "bucket_of (snd (rateLimit (rateLimit_calls bs req ts) req now)) (getIp req)
      = filter (\<lambda>t. now - t < 60000) (ts @ [now])"
    by simp
  then show ?thesis
    using rateLimit_rejects[of "rateLimit_calls bs req ts" req now] by simp
qed

text \<open>
  Claim C1. One call of the rate limiter for the client \<open>getIp req\<close> at time \<open>now\<close>:
  the stored sequence of that client becomes the old one without the entries \<open>t\<close> that
  fail \<open>now - t < 60000\<close>, followed by \<open>now\<close>; no other client's sequence changes;
  the call is rejected exactly when the stored sequence is then longer than 30; its length
  is the number of old entries inside the window plus one, so every stored entry is inside
  the window and no old entry outside it is counted. The function has no failing branch:
  it returns a decision for every map, request and time.
\<close>

theorem rateLimit_sliding_window:
  "snd (rateLimit bs req now) (getIp req)
     = Some (filter (\<lambda>t. now - t < 60000) (bucket_of bs (getIp req)) @ [now])
   \<and> (\<forall>k. k \<noteq> getIp req \<longrightarrow> snd (rateLimit bs req now) k = bs k)
   \<and> (fst (rateLimit bs req now) \<noteq> None
        \<longleftrightarrow> length (bucket_of (snd (rateLimit bs req now)) (getIp req)) > 30)
   \<and> length (bucket_of (snd (rateLimit bs req now)) (getIp req))
        = length (filter (\<lambda>t. now - t < 60000) (bucket_of bs (getIp req))) + 1
   \<and> (\<forall>t \<in> set (bucket_of (snd (rateLimit bs req now)) (getIp req)). now - t < 60000)
   \<and> (\<forall>t \<in> set (bucket_of bs (getIp req)). \<not> now - t < 60000 \<longrightarrow>
         t \<notin> set (bucket_of (snd (rateLimit bs req now)) (getIp req)))"
  by (auto simp: rateLimit_def Let_def bucket_of_def WINDOW_MS_def MAX_REQUESTS_def)

text \<open>
  At a client with three earlier calls, one of them 100500 ms old: that one is dropped, the
  other two are kept, the call is admitted, and another client's entry is untouched. After
  29 calls inside the window the next one is admitted, after 30 it is rejected, and 30 calls
  that are exactly 60000 ms old do not count.
\<close>

theorem rateLimit_sliding_window_witness:
  "getIp \<lparr>xff = Some ''10.0.0.1 , 10.0.0.2'', ip = None, json_body = None, searchParams = []\<rparr>
     = ''10.0.0.1''
   \<and> ''10.0.0.7'' \<noteq> ''10.0.0.1''
   \<and> snd (rateLimit [''10.0.0.1'' \<mapsto> [0, 50000, 100000]]
         \<lparr>xff = Some ''10.0.0.1 , 10.0.0.2'', ip = None, json_body = None, searchParams = []\<rparr>
         100500) ''10.0.0.7'' = None
   \<and> snd (rateLimit [''10.0.0.1'' \<mapsto> [0, 50000, 100000]]
         \<lparr>xff = Some ''10.0.0.1 , 10.0.0.2'', ip = None, json_body = None, searchParams = []\<rparr>
         100500) ''10.0.0.1'' = Some [50000, 100000, 100500]
   \<and> fst (rateLimit [''10.0.0.1'' \<mapsto> [0, 50000, 100000]]
         \<lparr>xff = Some ''10.0.0.1 , 10.0.0.2'', ip = None, json_body = None, searchParams = []\<rparr>
         100500) = None
   \<and> (0::int) \<in> set (bucket_of [''10.0.0.1'' \<mapsto> [0, 50000, 100000]] ''10.0.0.1'')
   \<and> \<not> (100500::int) - 0 < 60000
   \<and> (0::int) \<notin> set [50000, 100000, 100500]
   \<and> fst (rateLimit [''10.0.0.1'' \<mapsto> replicate 29 100000]
         \<lparr>xff = Some ''10.0.0.1 , 10.0.0.2'', ip = None, json_body = None, searchParams = []\<rparr>
         100500) = None
   \<and> fst (rateLimit [''10.0.0.1'' \<mapsto> replicate 30 100000]
         \<lparr>xff = Some ''10.0.0.1 , 10.0.0.2'', ip = None, json_body = None, searchParams = []\<rparr>
         100500) = Some ''Rate limit exceeded. Please try again shortly.''
   \<and> fst (rateLimit [''10.0.0.1'' \<mapsto> replicate 30 40500]
         \<lparr>xff = Some ''10.0.0.1 , 10.0.0.2'', ip = None, json_body = None, searchParams = []\<rparr>
         100500) = None"
  using rateLimit_sliding_window
      [of "[''10.0.0.1'' \<mapsto> [0, 50000, 100000]]"
          "\<lparr>xff = Some ''10.0.0.1 , 10.0.0.2'', ip = None, json_body = None, searchParams = []\<rparr>"
          100500]
  by (simp add: getIp_def trim_def split_comma_first_def is_ws_def bucket_of_def
      rateLimit_def Let_def WINDOW_MS_def MAX_REQUESTS_def)

subsection \<open>The lookup handler\<close>



text \<open>
  Claim C3. When a request passes the gates (admitted, key configured, body valid) and the
  geocoding call succeeds with zero results (its \<^verbatim>\<open>results\<close> is not a non-empty array), the
  lookup handler answers 200 with no candidates, the selected index 0, a null place and the
  single warning "No match found."; the only outbound call is the geocoding call, so the
  place-details upstream is not called.
\<close>

theorem POST_no_match:
  assumes "rateLimit bs req (t_rate w) = (None, bs')"
    and "gk = Some key" and "key \<noteq> []"
    and "json_body req = Some b"
    and "BodySchema_safeParse b = Inr (address, sel)"
    and "fetch w (GeocodeCall address key) = Inr geoRes" and "ok geoRes"
    and "up_json geoRes = Inr geoData"
    and "get_prop geoData ''results'' = Inr results"
    and "\<forall>r rs. results \<noteq> Arr (r # rs)"
  shows "POST bs gk w req =
           (Responded
              \<lparr>status = 200,
               body = LookupJson
                 \<lparr>geocode = \<lparr>query = address, candidates = [], selectedIndex = 0\<rparr>,
                  place = Null, warnings = [''No match found.''], latencyMs = None\<rparr>,
               headers = []\<rparr>,
            [GeocodeCall address key], bs')
       \<and> (\<forall>p k m. PlaceDetailsCall p k m \<notin> set (fst (snd (POST bs gk w req))))"
proof -
  have "POST bs gk w req =
           (Responded
              \<lparr>status = 200,
               body = LookupJson
                 \<lparr>geocode = \<lparr>query = address, candidates = [], selectedIndex = 0\<rparr>,
                  place = Null, warnings = [''No match found.''], latencyMs = None\<rparr>,
               headers = []\<rparr>,
            [GeocodeCall address key], bs')"
    unfolding POST_geocoded[OF assms(1-9)] using assms(10)
    by (cases results) (simp_all add: NO_MATCH_def split: list.splits)
  then show ?thesis by simp
qed

text \<open>The sample request in a world whose geocoder returns an empty result list.\<close>

theorem POST_no_match_witness:
  "rateLimit Map.empty sample_request (t_rate (sample_world []))
     = (None, [''203.0.113.9'' \<mapsto> [1000]])
   \<and> ''key'' \<noteq> []
   \<and> json_body sample_request = Some sample_body
   \<and> BodySchema_safeParse sample_body = Inr (''1 Main St'', Some 1)
   \<and> fetch (sample_world []) (GeocodeCall ''1 Main St'' ''key'')
       = Inr (sample_upstream 200 (Obj [(''results'', Arr [])]))
   \<and> ok (sample_upstream 200 (Obj [(''results'', Arr [])]))
   \<and> get_prop (Obj [(''results'', Arr [])]) ''results'' = Inr (Arr [])
   \<and> POST Map.empty (Some ''key'') (sample_world []) sample_request =
           (Responded
              \<lparr>status = 200,
               body = LookupJson
                 \<lparr>geocode = \<lparr>query = ''1 Main St'', candidates = [], selectedIndex = 0\<rparr>,
                  place = Null, warnings = [''No match found.''], latencyMs = None\<rparr>,
               headers = []\<rparr>,
            [GeocodeCall ''1 Main St'' ''key''], [''203.0.113.9'' \<mapsto> [1000]])"
  using POST_no_match [where bs = Map.empty and req = sample_request and w = "sample_world []"
      and bs' = "[''203.0.113.9'' \<mapsto> [1000]]" and gk = "Some ''key''" and key = "''key''"
      and b = sample_body and address = "''1 Main St''" and sel = "Some 1"
      and geoRes = "sample_upstream 200 (Obj [(''results'', Arr [])])"
      and geoData = "Obj [(''results'', Arr [])]" and results = "Arr []"]
  by (simp add: sample_rateLimit sample_json_body sample_parse sample_geocode_fetch
      sample_upstream_simps sample_clock)

text \<open>
  Claim C4. When a request reaches the enrichment step (gates passed, geocoding succeeded
  with a non-empty result list that maps to the candidates \<open>cands\<close>, the chosen candidate
  has a place id) and the place-details fetch throws \<open>e\<close> (the \<^verbatim>\<open>fetch\<close> rejects, or the
  upstream status is not a success, or the body is no JSON), the lookup handler still
  answers 200: the place is null, the message of \<open>e\<close> is the last warning, the elapsed time
  is computed and the payload is assembled with all candidates and the selected index.
\<close>

theorem POST_enrichment_failure:
  assumes "rateLimit bs req (t_rate w) = (None, bs')"
    and "gk = Some key" and "key \<noteq> []"
    and "json_body req = Some b"
    and "BodySchema_safeParse b = Inr (address, sel)"
    and "fetch w (GeocodeCall address key) = Inr geoRes" and "ok geoRes"
    and "up_json geoRes = Inr geoData"
    and "get_prop geoData ''results'' = Inr (Arr (r # rs))"
    and "map_candidates (r # rs) = Inr cands"
    and "idx = (case sel of Some i \<Rightarrow> if 0 \<le> i \<and> i < int (length cands) then i else 0
                | None \<Rightarrow> 0)"
    and "truthy (place_id (cands ! nat idx))"
    and "fetch w (PlaceDetailsCall (place_id (cands ! nat idx)) key PLACE_FIELD_MASK) = Inl e
       \<or> (\<exists>d. fetch w (PlaceDetailsCall (place_id (cands ! nat idx)) key PLACE_FIELD_MASK) = Inr d
              \<and> \<not> ok d
              \<and> e = Failure (Some (''Places v1 details failed with status ''
                    @ string_of_nat (up_status d)
                    @ (case up_text d of Some t \<Rightarrow> if t \<noteq> [] then '': '' @ t else []
                       | None \<Rightarrow> []))))
       \<or> (\<exists>d. fetch w (PlaceDetailsCall (place_id (cands ! nat idx)) key PLACE_FIELD_MASK) = Inr d
              \<and> ok d \<and> up_json d = Inl e)"
  shows "POST bs gk w req =
           (Responded
              \<lparr>status = 200,
               body = LookupJson
                 \<lparr>geocode = \<lparr>query = address, candidates = cands, selectedIndex = idx\<rparr>,
                  place = Null,
                  warnings =
                    (if length cands > 1 then [''Multiple matches found; showing best match.'']
                     else [])
                    @ [case message_of e of Some m \<Rightarrow> m | None \<Rightarrow> ''Place details fetch failed''],
                  latencyMs = Some (t_end w - t_start w)\<rparr>,
               headers = []\<rparr>,
            [GeocodeCall address key,
             PlaceDetailsCall (place_id (cands ! nat idx)) key PLACE_FIELD_MASK],
            bs')"
proof -
  have len: "length cands = length (r # rs)"
    by (rule map_candidates_length[OF assms(10)])
  have inr: "nat idx < length cands"
    using len unfolding assms(11) by (auto split: option.splits)
  have thr: "fetchPlaceDetailsNew (fetch w) key (place_id (cands ! nat idx)) = Inl e"
    by (rule fetchPlaceDetailsNew_throws[where f = "fetch w", OF assms(13)])
  show ?thesis
    unfolding POST_geocoded[OF assms(1-9)]
    by (simp add: POST_select_throws[OF assms(10,11) inr assms(12) thr] MULTIPLE_MATCHES_def)
qed

text \<open>
  The sample request in the sample world: the place-details upstream answers 404 with the
  text "not found", and the response is the 200 of the sample result.
\<close>

theorem POST_enrichment_failure_witness:
  "rateLimit Map.empty sample_request (t_rate (sample_world sample_results))
     = (None, [''203.0.113.9'' \<mapsto> [1000]])
   \<and> ''key'' \<noteq> []
   \<and> json_body sample_request = Some sample_body
   \<and> BodySchema_safeParse sample_body = Inr (''1 Main St'', Some 1)
   \<and> fetch (sample_world sample_results) (GeocodeCall ''1 Main St'' ''key'')
       = Inr (sample_upstream 200 (Obj [(''results'', Arr sample_results)]))
   \<and> ok (sample_upstream 200 (Obj [(''results'', Arr sample_results)]))
   \<and> map_candidates sample_results = Inr sample_candidates
   \<and> truthy (place_id (sample_candidates ! nat 1))
   \<and> fetch (sample_world sample_results)
         (PlaceDetailsCall (place_id (sample_candidates ! nat 1)) ''key'' PLACE_FIELD_MASK)
       = Inr (sample_upstream 404 Null)
   \<and> \<not> ok (sample_upstream 404 Null)
   \<and> POST Map.empty (Some ''key'') (sample_world sample_results) sample_request =
        (Responded
           \<lparr>status = 200,
            body = LookupJson
              \<lparr>geocode = \<lparr>query = ''1 Main St'', candidates = sample_candidates,
                           selectedIndex = 1\<rparr>,
               place = Null,
               warnings = [''Multiple matches found; showing best match.'',
                           ''Places v1 details failed with status 404: not found''],
               latencyMs = Some 249\<rparr>,
            headers = []\<rparr>,
         [GeocodeCall ''1 Main St'' ''key'',
          PlaceDetailsCall (Str ''pid-b'') ''key'' PLACE_FIELD_MASK],
         [''203.0.113.9'' \<mapsto> [1000]])"
  using POST_enrichment_failure [where bs = Map.empty and req = sample_request
      and w = "sample_world sample_results"
      and bs' = "[''203.0.113.9'' \<mapsto> [1000]]" and gk = "Some ''key''" and key = "''key''"
      and b = sample_body and address = "''1 Main St''" and sel = "Some 1"
      and geoRes = "sample_upstream 200 (Obj [(''results'', Arr sample_results)])"
      and geoData = "Obj [(''results'', Arr sample_results)]"
      and r = "hd sample_results" and rs = "tl sample_results"
      and cands = sample_candidates and idx = 1
      and e = "Failure (Some ''Places v1 details failed with status 404: not found'')"]
  by (simp add: sample_POST sample_response_def sample_result_def sample_rateLimit
      sample_json_body sample_parse sample_geocode_fetch sample_upstream_simps
      sample_map_candidates sample_clock sample_details_fetch)
     (simp add: sample_candidates_def sample_results_def)

text \<open>
  Claim C7. In every 200 response of the lookup handler to a request whose geocoding
  result list is \<open>rs\<close>: if \<open>rs\<close> has more than one element, the warnings contain
  "Multiple matches found; showing best match.", whatever index is selected; if \<open>rs\<close>
  has at most one element, they do not contain it (given that no error raised by the
  runtime, that is by \<^verbatim>\<open>fetch\<close> or \<^verbatim>\<open>resp.json()\<close>, has this very text as its message,
  since the message of a caught error becomes a warning).
\<close>

theorem POST_multiple_matches_warning:
  assumes "POST bs gk w req = (Responded resp, calls, bs')"
    and "status resp = 200"
    and "gk = Some key"
    and "json_body req = Some b"
    and "BodySchema_safeParse b = Inr (address, sel)"
    and "fetch w (GeocodeCall address key) = Inr geoRes"
    and "up_json geoRes = Inr geoData"
    and "get_prop geoData ''results'' = Inr (Arr rs)"
  shows "\<exists>res. body resp = LookupJson res
     \<and> (length rs > 1 \<longrightarrow>
          ''Multiple matches found; showing best match.'' \<in> set (warnings res))
     \<and> (length rs \<le> 1
          \<and> (\<forall>c e. fetch w c = Inl e \<longrightarrow>
                 message_of e \<noteq> Some ''Multiple matches found; showing best match.'')
          \<and> (\<forall>c d e. fetch w c = Inr d \<and> up_json d = Inl e \<longrightarrow>
                 message_of e \<noteq> Some ''Multiple matches found; showing best match.'')
          \<longrightarrow> ''Multiple matches found; showing best match.'' \<notin> set (warnings res))"
  using assms(1,2)
proof (cases rule: POST_200_cases)
  case (no_match key' b' address' sel' geoRes' geoData' results)
  from no_match(1,2,3) assms(3,4,5) have "key' = key" "address' = address" by auto
  with no_match(4,6,7,8) assms(6,7,8) have "rs = []" by (cases rs) auto
  with no_match(9) show ?thesis by (simp add: NO_MATCH_def)
next
  case (matches key' b' address' sel' geoRes' geoData' r rs' calls')
  from matches(1,2,3) assms(3,4,5) have k: "key' = key" "address' = address" by auto
  with matches(4,6,7) assms(6,7,8) have rs: "rs = r # rs'" by auto
  from POST_select_body[OF matches(8)] obtain res where res: "body resp = LookupJson res"
    by blast
  from POST_select_warnings[OF matches(8) res] obtain cands m where
    m: "map_candidates (r # rs') = Inr cands"
    and ws: "warnings res = (if length cands > 1 then [MULTIPLE_MATCHES] else []) @ [m]"
    and cases: "m = ''No place_id from geocoding; place details not available.''
        \<or> m = ''Places details returned from Places API (New); attribute availability varies by place.''
        \<or> (\<exists>e p. fetchPlaceDetailsNew (fetch w) key' p = Inl e
              \<and> m = (case message_of e of Some m \<Rightarrow> m | None \<Rightarrow> ''Place details fetch failed''))"
    by blast
  have len: "length cands = length rs"
    using map_candidates_length[OF m] rs by simp
  have present: "length rs > 1 \<longrightarrow>
      ''Multiple matches found; showing best match.'' \<in> set (warnings res)"
    using ws len by (simp add: MULTIPLE_MATCHES_def)
  have absent: "''Multiple matches found; showing best match.'' \<notin> set (warnings res)"
    if le: "length rs \<le> 1"
      and f: "\<forall>c e. fetch w c = Inl e \<longrightarrow>
                 message_of e \<noteq> Some ''Multiple matches found; showing best match.''"
      and j: "\<forall>c d e. fetch w c = Inr d \<and> up_json d = Inl e \<longrightarrow>
                 message_of e \<noteq> Some ''Multiple matches found; showing best match.''"
  proof -
    have w1: "warnings res = [m]" using ws len le by simp
    have "m \<noteq> ''Multiple matches found; showing best match.''"
      using cases
    proof (elim disjE exE conjE)
      fix e p
      assume thr: "fetchPlaceDetailsNew (fetch w) key' p = Inl e"
        and me: "m = (case message_of e of Some m \<Rightarrow> m | None \<Rightarrow> ''Place details fetch failed'')"
      from fetchPlaceDetailsNew_Inl[OF thr]
      have "message_of e \<noteq> Some ''Multiple matches found; showing best match.''"
        using f j by (elim disjE exE conjE) auto
      with me show ?thesis by (cases "message_of e") auto
    qed simp_all
    with w1 show ?thesis by simp
  qed
  from res present absent show ?thesis by blast
qed

text \<open>
  Two results in the sample world: the warning is there. One result: it is not, and the
  only warning is the message of the failed place-details call.
\<close>

theorem POST_multiple_matches_warning_witness:
  "POST Map.empty (Some ''key'') (sample_world sample_results) sample_request
     = (Responded sample_response,
        [GeocodeCall ''1 Main St'' ''key'',
         PlaceDetailsCall (Str ''pid-b'') ''key'' PLACE_FIELD_MASK],
        [''203.0.113.9'' \<mapsto> [1000]])
   \<and> status sample_response = 200
   \<and> body sample_response = LookupJson sample_result
   \<and> length sample_results > 1
   \<and> ''Multiple matches found; showing best match.'' \<in> set (warnings sample_result)
   \<and> length [hd sample_results] \<le> 1
   \<and> POST Map.empty (Some ''key'') (sample_world [hd sample_results]) sample_request
     = (Responded
          \<lparr>status = 200,
           body = LookupJson
             \<lparr>geocode = \<lparr>query = ''1 Main St'', candidates = [hd sample_candidates],
                          selectedIndex = 0\<rparr>,
              place = Null,
              warnings = [''Places v1 details failed with status 404: not found''],
              latencyMs = Some 249\<rparr>,
           headers = []\<rparr>,
        [GeocodeCall ''1 Main St'' ''key'',
         PlaceDetailsCall (Str ''pid-a'') ''key'' PLACE_FIELD_MASK],
        [''203.0.113.9'' \<mapsto> [1000]])
   \<and> ''Multiple matches found; showing best match.''
        \<notin> set [''Places v1 details failed with status 404: not found'']"
  using POST_multiple_matches_warning [OF sample_POST _ _ sample_json_body sample_parse
          sample_geocode_fetch, where key = "''key''" and rs = sample_results]
        POST_multiple_matches_warning [OF sample_POST_single _ _ sample_json_body sample_parse
          sample_geocode_fetch, where key = "''key''" and rs = "[hd sample_results]"]
        sample_runtime_messages [of "[hd sample_results]"]
  by (simp add: sample_POST sample_POST_single sample_response_def sample_result_def
      sample_upstream_simps sample_results_length MULTIPLE_MATCHES_def)

subsection \<open>The photo proxy\<close>

text \<open>
  Claim C5. A photo-proxy request that is admitted by the rate limiter, with the key
  configured, whose photo name is present (the first of \<^verbatim>\<open>photoName\<close>, \<^verbatim>\<open>name\<close>,
  \<^verbatim>\<open>photoRef\<close>) but does not start with "places/", is answered 400, and no outbound call is
  made.
\<close>

theorem GET_rejects_foreign_photoName:
  assumes "rateLimit bs req (t_rate w) = (None, bs')"
    and "gk = Some key" and "key \<noteq> []"
    and "orElse (param req ''photoName'') (orElse (param req ''name'') (param req ''photoRef''))
           = Some name"
    and "\<not> prefix ''places/'' name"
  shows "\<exists>resp. GET bs gk w req = (Responded resp, [], bs') \<and> status resp = 400"
  using assms by (cases "name = []") (simp_all add: GET_def Let_def text_response_def)

text \<open>The scenario of the specification: \<^verbatim>\<open>photoName=notplaces/abc\<close>.\<close>

theorem GET_rejects_foreign_photoName_witness:
  "rateLimit Map.empty (sample_request\<lparr>searchParams := [(''photoName'', ''notplaces/abc'')]\<rparr>)
       (t_rate (sample_world []))
     = (None, [''203.0.113.9'' \<mapsto> [1000]])
   \<and> ''key'' \<noteq> []
   \<and> param (sample_request\<lparr>searchParams := [(''photoName'', ''notplaces/abc'')]\<rparr>) ''photoName''
       = Some ''notplaces/abc''
   \<and> \<not> prefix ''places/'' ''notplaces/abc''
   \<and> fst (snd (GET Map.empty (Some ''key'') (sample_world [])
         (sample_request\<lparr>searchParams := [(''photoName'', ''notplaces/abc'')]\<rparr>))) = []
   \<and> (case fst (GET Map.empty (Some ''key'') (sample_world [])
         (sample_request\<lparr>searchParams := [(''photoName'', ''notplaces/abc'')]\<rparr>)) of
        Responded resp \<Rightarrow> status resp = 400 | Threw e \<Rightarrow> False)"
  using GET_rejects_foreign_photoName [where bs = Map.empty and gk = "Some ''key''"
      and key = "''key''" and w = "sample_world []"
      and req = "sample_request\<lparr>searchParams := [(''photoName'', ''notplaces/abc'')]\<rparr>"
      and name = "''notplaces/abc''" and bs' = "[''203.0.113.9'' \<mapsto> [1000]]"]
  by (auto simp add: sample_rateLimit_params sample_clock param_def)

text \<open>
  Claim C6, as stated, fails: the JSON branch has no \<^verbatim>\<open>try\<close>/\<^verbatim>\<open>catch\<close>, so when the
  photo-media call answers 2xx with a JSON body that carries a \<^verbatim>\<open>photoUri\<close> and the
  secondary \<^verbatim>\<open>fetch\<close> of that URL rejects, the handler throws: it returns neither the 200
  nor the 502.
\<close>

theorem GET_json_branch_fetch_rejects_counterexample:
  "fetch (photo_world_down photo_json)
       (PhotoMediaCall ''places/abc/photos/x'' ''400'' None ''key'') = Inr photo_json
   \<and> 200 \<le> up_status photo_json \<and> up_status photo_json \<le> 299
   \<and> includes_str (case up_content_type photo_json of Some c \<Rightarrow> c | None \<Rightarrow> [])
        ''application/json''
   \<and> opt_prop (case up_json photo_json of Inl e \<Rightarrow> Null | Inr d \<Rightarrow> d) ''photoUri''
       = Str ''https://img.example/p.jpg''
   \<and> fetch (photo_world_down photo_json) (UrlCall (Str ''https://img.example/p.jpg''))
       = Inl (Failure (Some ''fetch failed''))
   \<and> GET Map.empty (Some ''key'') (photo_world_down photo_json) sample_request =
        (Threw (Failure (Some ''fetch failed'')),
         [PhotoMediaCall ''places/abc/photos/x'' ''400'' None ''key'',
          UrlCall (Str ''https://img.example/p.jpg'')],
         [''203.0.113.9'' \<mapsto> [1000]])"
  by (simp add: sample_GET_down photo_world_down_simps photo_json_simps)

text \<open>
  Claim C6, amended. A photo-proxy request that passes the gates and whose photo-media call
  answers \<open>resp\<close> with a 2xx status and a content type containing \<^verbatim>\<open>application/json\<close>
  is decided by the JSON branch alone, before the redirect and direct-binary branches are
  looked at. With \<open>mediaUrl\<close> the \<^verbatim>\<open>photoUri\<close> of the JSON body: if the body is not JSON or
  has no (truthy) \<^verbatim>\<open>photoUri\<close>, the answer is 502 and nothing is fetched; otherwise
  \<open>mediaUrl\<close> is fetched, and then: if that \<^verbatim>\<open>fetch\<close> rejects, the handler throws what it
  rejected with; if it resolves with a non-success status, the answer is 502; if it resolves
  with a success status, the answer is 200 with its bytes and its content type
  (\<^verbatim>\<open>image/jpeg\<close> when it has none), unless reading the bytes rejects, in which case the
  handler throws that.
\<close>

theorem GET_json_branch:
  assumes "rateLimit bs req (t_rate w) = (None, bs')"
    and "gk = Some key" and "key \<noteq> []"
    and "orElse (param req ''photoName'') (orElse (param req ''name'') (param req ''photoRef''))
           = Some name"
    and "prefix ''places/'' name"
    and "maxWidthPx = (case orElse (param req ''maxWidthPx'') (param req ''maxwidth'') of
                         Some x \<Rightarrow> x | None \<Rightarrow> ''400'')"
    and "maxHeightPx = orElse (param req ''maxHeightPx'') (param req ''maxheight'')"
    and "call = PhotoMediaCall name maxWidthPx
                  (if maxHeightPx = Some [] then None else maxHeightPx) key"
    and "fetch w call = Inr resp"
    and "200 \<le> up_status resp \<and> up_status resp \<le> 299"
    and "includes_str (case up_content_type resp of Some c \<Rightarrow> c | None \<Rightarrow> [])
           ''application/json''"
    and "mediaUrl = opt_prop (case up_json resp of Inl e \<Rightarrow> Null | Inr d \<Rightarrow> d) ''photoUri''"
  shows "((\<exists>e. up_json resp = Inl e)
            \<or> (\<exists>kvs. up_json resp = Inr (Obj kvs) \<and> map_of kvs ''photoUri'' = None)
          \<longrightarrow> \<not> truthy mediaUrl)
     \<and> (\<not> truthy mediaUrl \<longrightarrow>
          GET bs gk w req =
            (Responded (text_response 502 ''Failed to resolve photo media URL''), [call], bs'))
     \<and> (truthy mediaUrl \<longrightarrow>
          (\<forall>e. fetch w (UrlCall mediaUrl) = Inl e \<longrightarrow>
             GET bs gk w req = (Threw e, [call, UrlCall mediaUrl], bs'))
        \<and> (\<forall>m. fetch w (UrlCall mediaUrl) = Inr m \<and> \<not> ok m \<longrightarrow>
             GET bs gk w req =
               (Responded (text_response 502 ''Failed to fetch photo''),
                [call, UrlCall mediaUrl], bs'))
        \<and> (\<forall>m e. fetch w (UrlCall mediaUrl) = Inr m \<and> ok m \<and> up_arrayBuffer m = Inl e
             \<longrightarrow> GET bs gk w req = (Threw e, [call, UrlCall mediaUrl], bs'))
        \<and> (\<forall>m bytes. fetch w (UrlCall mediaUrl) = Inr m \<and> ok m \<and> up_arrayBuffer m = Inr bytes
             \<longrightarrow>
             GET bs gk w req =
               (Responded
                  \<lparr>status = 200, body = Bytes bytes,
                   headers =
                     [(''content-type'',
                       case up_content_type m of Some c \<Rightarrow> c | None \<Rightarrow> ''image/jpeg''),
                      (''cache-control'', ''public, max-age=86400'')]\<rparr>,
                [call, UrlCall mediaUrl], bs')))"
proof -
  have okr: "ok resp" using assms(10) by (simp add: ok_def)
  have G: "GET bs gk w req = (case GET_relay w resp of (out, calls) \<Rightarrow> (out, call # calls, bs'))"
    unfolding GET_admitted[OF assms(1-8)] by (simp add: assms(9))
  show ?thesis
  proof (intro conjI impI allI)
    assume "(\<exists>e. up_json resp = Inl e)
            \<or> (\<exists>kvs. up_json resp = Inr (Obj kvs) \<and> map_of kvs ''photoUri'' = None)"
    then show "\<not> truthy mediaUrl"
      unfolding assms(12) by auto
  next
    assume "\<not> truthy mediaUrl"
    then show "GET bs gk w req =
            (Responded (text_response 502 ''Failed to resolve photo media URL''), [call], bs')"
      using okr assms(11) unfolding G assms(12) by (simp add: GET_relay_def Let_def)
  next
    fix e
    assume "truthy mediaUrl" and "fetch w (UrlCall mediaUrl) = Inl e"
    then show "GET bs gk w req = (Threw e, [call, UrlCall mediaUrl], bs')"
      using okr assms(11) unfolding G assms(12) by (simp add: GET_relay_def Let_def)
  next
    fix m e
    assume "truthy mediaUrl"
      and "fetch w (UrlCall mediaUrl) = Inr m \<and> ok m \<and> up_arrayBuffer m = Inl e"
    then show "GET bs gk w req = (Threw e, [call, UrlCall mediaUrl], bs')"
      using okr assms(11) unfolding G assms(12)
      by (simp add: GET_relay_def Let_def photo_reply_def)
  next
    fix m
    assume "truthy mediaUrl" and "fetch w (UrlCall mediaUrl) = Inr m \<and> \<not> ok m"
    then show "GET bs gk w req =
               (Responded (text_response 502 ''Failed to fetch photo''),
                [call, UrlCall mediaUrl], bs')"
      using okr assms(11) unfolding G assms(12) by (simp add: GET_relay_def Let_def)
  next
    fix m bytes
    assume "truthy mediaUrl"
      and "fetch w (UrlCall mediaUrl) = Inr m \<and> ok m \<and> up_arrayBuffer m = Inr bytes"
    then show "GET bs gk w req =
               (Responded
                  \<lparr>status = 200, body = Bytes bytes,
                   headers =
                     [(''content-type'',
                       case up_content_type m of Some c \<Rightarrow> c | None \<Rightarrow> ''image/jpeg''),
                      (''cache-control'', ''public, max-age=86400'')]\<rparr>,
                [call, UrlCall mediaUrl], bs')"
      using okr assms(11) unfolding G assms(12)
      by (simp add: GET_relay_def Let_def photo_reply_def CACHE_CONTROL_def)
  qed
qed

text \<open>
  The scenario of the specification: the photo-media call returns the JSON
  \<^verbatim>\<open>{photoUri: "https://img.example/p.jpg"}\<close>, the proxy fetches that URL and answers with
  its bytes and its content type.
\<close>

theorem GET_json_branch_witness:
  "rateLimit Map.empty sample_request (t_rate (photo_world photo_json))
     = (None, [''203.0.113.9'' \<mapsto> [1000]])
   \<and> prefix ''places/'' ''places/abc/photos/x''
   \<and> fetch (photo_world photo_json) (PhotoMediaCall ''places/abc/photos/x'' ''400'' None ''key'')
       = Inr photo_json
   \<and> 200 \<le> up_status photo_json \<and> up_status photo_json \<le> 299
   \<and> includes_str (case up_content_type photo_json of Some c \<Rightarrow> c | None \<Rightarrow> [])
        ''application/json''
   \<and> opt_prop (case up_json photo_json of Inl e \<Rightarrow> Null | Inr d \<Rightarrow> d) ''photoUri''
       = Str ''https://img.example/p.jpg''
   \<and> truthy (Str ''https://img.example/p.jpg'')
   \<and> GET Map.empty (Some ''key'') (photo_world photo_json) sample_request =
        (Responded
           \<lparr>status = 200, body = Bytes ''PNG-bytes'',
            headers = [(''content-type'', ''image/png''),
                       (''cache-control'', ''public, max-age=86400'')]\<rparr>,
         [PhotoMediaCall ''places/abc/photos/x'' ''400'' None ''key'',
          UrlCall (Str ''https://img.example/p.jpg'')],
         [''203.0.113.9'' \<mapsto> [1000]])"
proof -
  have rl: "rateLimit Map.empty sample_request (t_rate (photo_world photo_json))
     = (None, [''203.0.113.9'' \<mapsto> [1000]])"
    by (simp add: photo_world_simps sample_rateLimit)
  have key: "''key'' \<noteq> []" by simp
  have pre: "prefix ''places/'' ''places/abc/photos/x''" by simp
  have wd: "''400'' = (case orElse (param sample_request ''maxWidthPx'')
                              (param sample_request ''maxwidth'') of
                         Some x \<Rightarrow> x | None \<Rightarrow> ''400'')"
    by (simp add: sample_photo_name)
  have ht: "None = orElse (param sample_request ''maxHeightPx'') (param sample_request ''maxheight'')"
    by (simp add: sample_photo_name)
  have call: "PhotoMediaCall ''places/abc/photos/x'' ''400'' None ''key''
      = PhotoMediaCall ''places/abc/photos/x'' ''400''
          (if None = Some [] then None else None) ''key''"
    by simp
  have st: "200 \<le> up_status photo_json \<and> up_status photo_json \<le> 299"
    by (simp add: photo_json_def sample_upstream_def)
  have ct: "includes_str (case up_content_type photo_json of Some c \<Rightarrow> c | None \<Rightarrow> [])
        ''application/json''"
    by (simp add: photo_json_def sample_upstream_def)
  have url: "Str ''https://img.example/p.jpg''
       = opt_prop (case up_json photo_json of Inl e \<Rightarrow> Null | Inr d \<Rightarrow> d) ''photoUri''"
    by (simp add: photo_json_def sample_upstream_def)
  have tr: "truthy (Str ''https://img.example/p.jpg'')" by simp
  have okm: "ok \<lparr>up_status = 200, up_content_type = Some ''image/png'', up_location = None,
          up_text = None, up_json = Inl (Failure (Some ''Unexpected token'')),
          up_arrayBuffer = Inr ''PNG-bytes''\<rparr>"
    by (simp add: ok_def)
  note branch = GET_json_branch [OF rl refl key sample_photo_name(1) pre wd ht call
      photo_world_simps(2) st ct url]
  from branch tr photo_world_simps(3) okm
  have "GET Map.empty (Some ''key'') (photo_world photo_json) sample_request =
        (Responded
           \<lparr>status = 200, body = Bytes ''PNG-bytes'',
            headers = [(''content-type'', ''image/png''),
                       (''cache-control'', ''public, max-age=86400'')]\<rparr>,
         [PhotoMediaCall ''places/abc/photos/x'' ''400'' None ''key'',
          UrlCall (Str ''https://img.example/p.jpg'')],
         [''203.0.113.9'' \<mapsto> [1000]])"
    by simp
  with rl pre st ct url tr photo_world_simps(2) show ?thesis by simp
qed

text \<open>
  Claim C9. Every 200 response of the photo proxy, whichever branch produced it, carries
  the header \<^verbatim>\<open>cache-control: public, max-age=86400\<close>.
\<close>

theorem GET_success_cache_control:
  assumes "GET bs gk w req = (Responded resp, calls, bs')"
    and "status resp = 200"
  shows "map_of (headers resp) ''cache-control'' = Some ''public, max-age=86400''"
proof -
  from GET_200[OF assms] obtain r where "photo_reply r = Responded resp" by blast
  from photo_reply_headers[OF this] show ?thesis by (simp add: CACHE_CONTROL_def)
qed

text \<open>One 200 response on each of the three branches.\<close>

theorem GET_success_cache_control_witness:
  "fst (GET Map.empty (Some ''key'') (photo_world photo_json) sample_request)
     = Responded (photo_response ''image/png'' ''PNG-bytes'')
   \<and> fst (GET Map.empty (Some ''key'') (photo_world photo_redirect) sample_request)
     = Responded (photo_response ''image/png'' ''PNG-bytes'')
   \<and> fst (GET Map.empty (Some ''key'') (photo_world photo_direct) sample_request)
     = Responded (photo_response ''image/jpeg'' ''JPEG-bytes'')
   \<and> status (photo_response ''image/png'' ''PNG-bytes'') = 200
   \<and> status (photo_response ''image/jpeg'' ''JPEG-bytes'') = 200
   \<and> map_of (headers (photo_response ''image/png'' ''PNG-bytes'')) ''cache-control''
       = Some ''public, max-age=86400''
   \<and> map_of (headers (photo_response ''image/jpeg'' ''JPEG-bytes'')) ''cache-control''
       = Some ''public, max-age=86400''"
  using GET_success_cache_control [OF sample_GET_json]
    GET_success_cache_control [OF sample_GET_redirect]
    GET_success_cache_control [OF sample_GET_direct]
  by (simp add: sample_GET_json sample_GET_redirect sample_GET_direct photo_response_def)

subsection \<open>The candidate mapping\<close>

text \<open>
  Claim C8, as stated, fails: the mapping reads \<^verbatim>\<open>r.formatted_address\<close> without a guard, so a
  result list with a \<^verbatim>\<open>null\<close> element makes it throw a TypeError, and the handler throws
  with it.
\<close>

theorem toCandidate_null_record_counterexample:
  "toCandidate Null = Inl (TypeError ''formatted_address'')
   \<and> fst (POST Map.empty (Some ''key'') (sample_world [Null]) sample_request)
       = Threw (TypeError ''formatted_address'')"
  by (simp add: sample_POST_null_record toCandidate_def)

text \<open>
  Claim C8, amended. For every upstream record other than \<^verbatim>\<open>null\<close> (an object with any
  fields, and also a string, number, boolean or array), the mapping yields a candidate:
  a missing or null \<^verbatim>\<open>geometry\<close>, \<^verbatim>\<open>geometry.location\<close>, \<^verbatim>\<open>lat\<close> or \<^verbatim>\<open>lng\<close> gives a null
  \<^verbatim>\<open>lat\<close> or \<^verbatim>\<open>lng\<close>, a missing or null \<^verbatim>\<open>place_id\<close> or \<^verbatim>\<open>address_components\<close> gives null
  for that field, and none of these four fields is ever undefined.
\<close>

theorem toCandidate_total_on_non_null:
  assumes "r \<noteq> Null" and "r \<noteq> Undefined"
  shows "\<exists>c. toCandidate r = Inr c
     \<and> place_id c \<noteq> Undefined \<and> lat c \<noteq> Undefined \<and> lng c \<noteq> Undefined
     \<and> address_components c \<noteq> Undefined
     \<and> (opt_prop r ''geometry'' \<in> {Undefined, Null} \<longrightarrow> lat c = Null \<and> lng c = Null)
     \<and> (opt_prop (opt_prop r ''geometry'') ''location'' \<in> {Undefined, Null}
          \<longrightarrow> lat c = Null \<and> lng c = Null)
     \<and> (opt_prop (opt_prop (opt_prop r ''geometry'') ''location'') ''lat'' \<in> {Undefined, Null}
          \<longrightarrow> lat c = Null)
     \<and> (opt_prop (opt_prop (opt_prop r ''geometry'') ''location'') ''lng'' \<in> {Undefined, Null}
          \<longrightarrow> lng c = Null)
     \<and> (opt_prop r ''place_id'' \<in> {Undefined, Null} \<longrightarrow> place_id c = Null)
     \<and> (opt_prop r ''address_components'' \<in> {Undefined, Null}
          \<longrightarrow> address_components c = Null)"
  unfolding toCandidate_non_null[OF assms]
  by (auto simp add: nullish_or_Null_defined)

text \<open>The second sample record has no geometry and no address components.\<close>

theorem toCandidate_total_on_non_null_witness:
  "Obj [(''formatted_address'', Str ''1 Main St, Shelbyville''), (''place_id'', Str ''pid-b'')]
     \<noteq> Null
   \<and> Obj [(''formatted_address'', Str ''1 Main St, Shelbyville''), (''place_id'', Str ''pid-b'')]
     \<noteq> Undefined
   \<and> opt_prop
        (Obj [(''formatted_address'', Str ''1 Main St, Shelbyville''), (''place_id'', Str ''pid-b'')])
        ''geometry'' = Undefined
   \<and> toCandidate
        (Obj [(''formatted_address'', Str ''1 Main St, Shelbyville''), (''place_id'', Str ''pid-b'')])
       = Inr \<lparr>formatted_address = Str ''1 Main St, Shelbyville'', place_id = Str ''pid-b'',
              lat = Null, lng = Null, address_components = Null\<rparr>"
  using toCandidate_total_on_non_null
    [of "Obj [(''formatted_address'', Str ''1 Main St, Shelbyville''), (''place_id'', Str ''pid-b'')]"]
  by (simp add: toCandidate_def)

text \<open>
  Claim C10. For an upstream record that is an object, \<^verbatim>\<open>formatted_address\<close> is copied as
  it is: a record without that key gives a candidate whose \<^verbatim>\<open>formatted_address\<close> is undefined
  (so absent from the JSON), not null; whereas \<^verbatim>\<open>place_id\<close>, \<^verbatim>\<open>lat\<close>, \<^verbatim>\<open>lng\<close> and
  \<^verbatim>\<open>address_components\<close> are null when their source is missing, and never undefined.
\<close>

theorem toCandidate_formatted_address_copied:
  "\<exists>c. toCandidate (Obj kvs) = Inr c
     \<and> formatted_address c
         = (case map_of kvs ''formatted_address'' of None \<Rightarrow> Undefined | Some v \<Rightarrow> v)
     \<and> (map_of kvs ''formatted_address'' = None
          \<longrightarrow> formatted_address c = Undefined \<and> formatted_address c \<noteq> Null)
     \<and> (map_of kvs ''place_id'' = None \<longrightarrow> place_id c = Null)
     \<and> (map_of kvs ''geometry'' = None \<longrightarrow> lat c = Null \<and> lng c = Null)
     \<and> (map_of kvs ''address_components'' = None \<longrightarrow> address_components c = Null)
     \<and> place_id c \<noteq> Undefined \<and> lat c \<noteq> Undefined \<and> lng c \<noteq> Undefined
     \<and> address_components c \<noteq> Undefined"
  by (simp add: toCandidate_def nullish_or_Null_defined)

text \<open>A record that has only a place id.\<close>

theorem toCandidate_formatted_address_copied_witness:
  "map_of [(''place_id'', Str ''pid-c'')] ''formatted_address'' = None
   \<and> map_of [(''place_id'', Str ''pid-c'')] ''geometry'' = None
   \<and> map_of [(''place_id'', Str ''pid-c'')] ''address_components'' = None
   \<and> toCandidate (Obj [(''place_id'', Str ''pid-c'')])
       = Inr \<lparr>formatted_address = Undefined, place_id = Str ''pid-c'',
              lat = Null, lng = Null, address_components = Null\<rparr>"
  using toCandidate_formatted_address_copied [of "[(''place_id'', Str ''pid-c'')]"]
  by (simp add: toCandidate_def)

end
